theory Spec2Isabelle
  imports Complex_Main "HOL-Library.AList"
begin

section \<open>Soft Actor-Critic trainer of rlop: the data model\<close>

text \<open>
  The development embeds \<^verbatim>\<open>rlop/rl/rl.h\<close> (class \<^verbatim>\<open>RL\<close>) and
  \<^verbatim>\<open>rlop/rl/sac/sac.h\<close> (class \<^verbatim>\<open>SAC\<close>). The members of the two classes are
  the fields of the records \<open>rl\<close> and \<open>sac\<close>; a method that mutates members takes the
  object and returns it updated; a C++ exception or a crash is a value of \<open>error\<close>.

  Conventions of the embedding.
  \<^item> \<^verbatim>\<open>Int\<close> (a typedef of \<^verbatim>\<open>rlop/common/platform.h\<close>) is \<open>int\<close>; no counter is
    taken near the range limit of the machine type.
  \<^item> A \<^verbatim>\<open>torch::Tensor\<close> is the list of its entries; a one-element tensor that the
    code uses as a scalar is its entry; an undefined tensor (\<^verbatim>\<open>torch::Tensor()\<close>) is
    \<open>None\<close>. An entry of a tensor that the methods compute with (an observation, an
    action, a reward, a termination flag, the output of a network, a loss, a logged
    mean) is a floating-point value \<open>fp\<close>: a real, an infinity or NaN, with the
    arithmetic of IEEE 754 on the infinities and NaN. The rounding of an arithmetic
    result, the overflow of a finite result and the sign of zero are not represented.
    Devices are not represented.
  \<^item> The \<^verbatim>\<open>double\<close> members and the tensors the object keeps between calls (the
    parameters and buffers of the networks, \<^verbatim>\<open>log_ent_coef_\<close>, \<^verbatim>\<open>ent_coef_tensor_\<close>)
    are finite: reals. \<^verbatim>\<open>torch::tensor(x)\<close> of a \<^verbatim>\<open>double\<close> makes a tensor of the
    default floating type of libtorch, \<^verbatim>\<open>float\<close>: the value is narrowed with
    \<open>float32\<close>.
  \<^item> A \<^verbatim>\<open>std::unique_ptr\<close> member is an \<open>option\<close>, \<open>None\<close> for \<^verbatim>\<open>nullptr\<close>.
  \<^item> The networks, the optimizer, the environment and the sampling of the replay
    buffer are virtual or library code outside the two files: they are the fields of
    the record \<open>collab\<close>, a parameter of every method. Whatever they read and change
    besides their arguments (the simulator, the random generator) is the field
    \<open>world\<close> of the object.
  \<^item> Names are those of the code, a member without its trailing underscore. Where
    the name is reserved here it is changed: the batch field \<^verbatim>\<open>done\<close> is
    \<open>is_done\<close>, the member \<^verbatim>\<open>observation_\<close> is \<open>current_observation\<close> (the batch has
    a field \<open>observation\<close> too).
\<close>

subsection \<open>Floating-point values\<close>

datatype fp = Fin real | PosInf | NegInf | NaN

instantiation fp :: "{zero, plus}"
begin

definition zero_fp :: fp where
  "zero_fp = Fin 0"

fun plus_fp :: "fp \<Rightarrow> fp \<Rightarrow> fp" where
  "plus_fp NaN y = NaN"
| "plus_fp x NaN = NaN"
| "plus_fp PosInf NegInf = NaN"
| "plus_fp NegInf PosInf = NaN"
| "plus_fp PosInf y = PosInf"
| "plus_fp x PosInf = PosInf"
| "plus_fp NegInf y = NegInf"
| "plus_fp x NegInf = NegInf"
| "plus_fp (Fin a) (Fin b) = Fin (a + b)"

instance ..

end

text \<open>Without rounding the sum is associative, so the order in which \<^verbatim>\<open>mean()\<close> adds
  the entries does not matter here.\<close>

lemma fp_sum_regroup: "x + (y + z) = x + y + (z :: fp)"
  by (cases z; cases y; cases x; simp)

lemma fp_sum_swap: "y + x = x + (y :: fp)"
  by (cases y; cases x; simp)

lemma fp_sum_neutral: "x + 0 = (x :: fp)"
  by (cases x; simp add: zero_fp_def)

instance fp :: comm_monoid_add
  by standard (simp_all only: fp_sum_regroup [symmetric] fp_sum_swap [of 0] fp_sum_neutral, rule fp_sum_swap)

text \<open>The product of an infinity and zero is NaN; a quotient is the product with the
  inverse, and the inverse of zero is \<open>+\<infinity>\<close>, so that \<open>0 / 0\<close> is NaN.\<close>

instantiation fp :: "{one, uminus, minus, times, inverse}"
begin

definition one_fp :: fp where
  "one_fp = Fin 1"

fun uminus_fp :: "fp \<Rightarrow> fp" where
  "uminus_fp (Fin a) = Fin (- a)"
| "uminus_fp PosInf = NegInf"
| "uminus_fp NegInf = PosInf"
| "uminus_fp NaN = NaN"

definition minus_fp :: "fp \<Rightarrow> fp \<Rightarrow> fp" where
  "minus_fp x y = x + - y"

fun times_fp :: "fp \<Rightarrow> fp \<Rightarrow> fp" where
  "times_fp NaN y = NaN"
| "times_fp x NaN = NaN"
| "times_fp (Fin a) (Fin b) = Fin (a * b)"
| "times_fp (Fin a) PosInf = (if a = 0 then NaN else if 0 < a then PosInf else NegInf)"
| "times_fp (Fin a) NegInf = (if a = 0 then NaN else if 0 < a then NegInf else PosInf)"
| "times_fp PosInf (Fin b) = (if b = 0 then NaN else if 0 < b then PosInf else NegInf)"
| "times_fp NegInf (Fin b) = (if b = 0 then NaN else if 0 < b then NegInf else PosInf)"
| "times_fp PosInf PosInf = PosInf"
| "times_fp PosInf NegInf = NegInf"
| "times_fp NegInf PosInf = NegInf"
| "times_fp NegInf NegInf = PosInf"

fun inverse_fp :: "fp \<Rightarrow> fp" where
  "inverse_fp (Fin a) = (if a = 0 then PosInf else Fin (inverse a))"
| "inverse_fp PosInf = Fin 0"
| "inverse_fp NegInf = Fin 0"
| "inverse_fp NaN = NaN"

definition divide_fp :: "fp \<Rightarrow> fp \<Rightarrow> fp" where
  "divide_fp x y = x * inverse y"

instance ..

end

lemma fp_constants [simp]: "(0 :: fp) = Fin 0" "(1 :: fp) = Fin 1"
  by (simp_all add: zero_fp_def one_fp_def)

lemma fp_minus [simp]: "(x :: fp) - y = x + - y"
  by (simp add: minus_fp_def)

lemma fp_divide [simp]: "(x :: fp) / y = x * inverse y"
  by (simp add: divide_fp_def)

lemma fp_add_zero [simp]: "x + Fin 0 = x" "Fin 0 + x = x"
  by (cases x; simp)+

text \<open>\<^verbatim>\<open>torch::exp\<close>, and the comparison \<open>\<le>\<close> of IEEE 754, which is false when an operand
  is NaN. The minimum that \<^verbatim>\<open>Tensor::min(dim)\<close> takes is NaN when an operand is.\<close>

fun fexp :: "fp \<Rightarrow> fp" where
  "fexp (Fin a) = Fin (exp a)"
| "fexp PosInf = PosInf"
| "fexp NegInf = Fin 0"
| "fexp NaN = NaN"

fun fle :: "fp \<Rightarrow> fp \<Rightarrow> bool" where
  "fle NaN y = False"
| "fle x NaN = False"
| "fle NegInf y = True"
| "fle x PosInf = True"
| "fle (Fin a) (Fin b) = (a \<le> b)"
| "fle PosInf y = False"
| "fle x NegInf = False"

definition fmin :: "fp \<Rightarrow> fp \<Rightarrow> fp" where
  "fmin x y = (if x = NaN \<or> y = NaN then NaN else if fle x y then x else y)"

text \<open>The conversion of a \<^verbatim>\<open>double\<close> to \<^verbatim>\<open>float\<close>: the nearest number with a significand
  of 24 bits, a tie to the even one, with gradual underflow below \<open>2\<^sup>-\<^sup>1\<^sup>2\<^sup>6\<close>.
  \<open>binary_exponent x 0\<close> is the exponent of \<open>x > 0\<close>, not below \<open>- 126\<close>. A \<^verbatim>\<open>double\<close>
  beyond the largest \<^verbatim>\<open>float\<close> is converted to an infinity by the code; the reals have
  none, and \<open>float32\<close> rounds such a value like the others.\<close>

definition round_even :: "real \<Rightarrow> int" where
  "round_even x =
    (let f = \<lfloor>x\<rfloor>; r = x - of_int f
     in if r < 1 / 2 then f else if 1 / 2 < r then f + 1 else if even f then f else f + 1)"

function binary_exponent :: "real \<Rightarrow> int \<Rightarrow> int" where
  "binary_exponent x e =
    (if 2 \<le> x then binary_exponent (x / 2) (e + 1)
     else if x < 1 \<and> - 126 < e then binary_exponent (2 * x) (e - 1)
     else e)"
  by pat_completeness auto
termination
proof (relation "measure (\<lambda>(x, e). nat \<lfloor>x\<rfloor> + (if x < 1 then nat (e + 126) + 1 else 0))")
  show "wf (measure (\<lambda>(x, e). nat \<lfloor>x\<rfloor> + (if x < 1 then nat (e + 126) + 1 else 0)))"
    by simp
next
  fix x :: real and e :: int
  assume "2 \<le> x"
  then have "\<lfloor>x / 2\<rfloor> < \<lfloor>x\<rfloor>" by linarith
  moreover from \<open>2 \<le> x\<close> have "0 < \<lfloor>x\<rfloor>" by linarith
  ultimately show "((x / 2, e + 1), (x, e))
      \<in> measure (\<lambda>(x, e). nat \<lfloor>x\<rfloor> + (if x < 1 then nat (e + 126) + 1 else 0))"
    using \<open>2 \<le> x\<close> by simp
next
  fix x :: real and e :: int
  assume a: "\<not> 2 \<le> x" "x < 1 \<and> - 126 < e"
  show "((2 * x, e - 1), (x, e))
      \<in> measure (\<lambda>(x, e). nat \<lfloor>x\<rfloor> + (if x < 1 then nat (e + 126) + 1 else 0))"
  proof (cases "2 * x < 1")
    case True
    with a have "\<lfloor>2 * x\<rfloor> \<le> 0" "\<lfloor>x\<rfloor> \<le> 0" by linarith+
    with a True show ?thesis by simp
  next
    case False
    with a have "\<lfloor>2 * x\<rfloor> = 1" "\<lfloor>x\<rfloor> = 0" by linarith+
    with a False show ?thesis by simp
  qed
qed

definition float32 :: "real \<Rightarrow> real" where
  "float32 x =
    (if x = 0 then 0
     else (let ulp = 2 powi (binary_exponent \<bar>x\<bar> 0 - 23)
           in of_int (round_even (x / ulp)) * ulp))"

lemmas float32_simps = float32_def binary_exponent.simps round_even_def Let_def

subsection \<open>Tensors, results and errors\<close>

type_synonym tensor = "fp list"

datatype error = NullPointer | UndefinedTensor | EmptyStack | DivisionByZero

definition deref :: "'a option \<Rightarrow> error + 'a" where
  "deref p = (case p of None \<Rightarrow> Inl NullPointer | Some x \<Rightarrow> Inr x)"

definition and_then :: "error + 'a \<Rightarrow> ('a \<Rightarrow> error + 'b) \<Rightarrow> error + 'b" where
  "and_then r f = (case r of Inl e \<Rightarrow> Inl e | Inr x \<Rightarrow> f x)"

lemma and_then_Inr_iff: "and_then r f = Inr y \<longleftrightarrow> (\<exists>x. r = Inr x \<and> f x = Inr y)"
  by (cases r) (simp_all add: and_then_def)

lemma and_then_Inr [simp]: "and_then (Inr x) f = f x"
  by (simp add: and_then_def)

lemma and_then_Inl [simp]: "and_then (Inl e) f = Inl e"
  by (simp add: and_then_def)

lemma deref_Some [simp]: "deref (Some x) = Inr x"
  by (simp add: deref_def)

lemma deref_None [simp]: "deref None = Inl NullPointer"
  by (simp add: deref_def)

lemma deref_Inr_iff: "deref p = Inr x \<longleftrightarrow> p = Some x"
  by (cases p) simp_all

text \<open>A scalar tensor of an archive, with its element type: the hyperparameters, which
  are finite.\<close>

datatype scalar = Long int | Float real | Double real | Bool bool

text \<open>A network (\<^verbatim>\<open>torch::nn::Module\<close>): learnable parameters, buffers (running
  statistics) and the train/eval mode flag.\<close>

record module =
  parameters :: "real list"
  buffers :: "real list"
  training :: bool

text \<open>One batched transition; a sampled batch has the same five tensors.\<close>

record transition =
  observation :: tensor
  action :: tensor
  next_observation :: tensor
  reward :: tensor
  is_done :: tensor

record replay_buffer =
  capacity :: nat
  action_sizes :: "int list"
  storage :: "transition list"

text \<open>Modelled from the spec: \<^verbatim>\<open>ReplayBuffer::Add\<close> of \<^verbatim>\<open>rlop/rl/buffers.h\<close>, which is
  not among the sources. Section 4.1: Add appends one batched transition, overwriting
  the oldest entry once capacity is reached.\<close>

definition Add :: "transition \<Rightarrow> replay_buffer \<Rightarrow> replay_buffer" where
  "Add t b = b\<lparr>storage := drop (Suc (length (storage b)) - capacity b) (storage b @ [t])\<rparr>"

text \<open>Modelled from the spec: \<^verbatim>\<open>torch_utils::CopyStateDict\<close> and
  \<^verbatim>\<open>torch_utils::PolyakUpdate\<close> of \<^verbatim>\<open>rlop/common/torch_utils.h\<close>, which is not among
  the sources. Section 4.3: the target is parameter-copied from the critic at
  initialization. Section 4.5 step 7: \<^verbatim>\<open>target <- tau*source + (1-tau)*target\<close>,
  entry by entry.\<close>

definition CopyStateDict :: "module \<Rightarrow> module \<Rightarrow> module" where
  "CopyStateDict source target = target\<lparr>parameters := parameters source, buffers := buffers source\<rparr>"

definition PolyakUpdate :: "real list \<Rightarrow> real list \<Rightarrow> real \<Rightarrow> real list" where
  "PolyakUpdate source target t = map2 (\<lambda>p q. t * p + (1 - t) * q) source target"

subsection \<open>Automatic differentiation: which leaves a value depends on\<close>

text \<open>
  A tensor that autograd tracks is a value together with the set of leaf tensors
  (parameter groups requiring gradient) it was differentiably computed from;
  \<^verbatim>\<open>loss.backward()\<close> contributes gradient to exactly these. An operation joins the
  leaves of its operands; \<^verbatim>\<open>detach()\<close> and a \<^verbatim>\<open>torch::NoGradGuard\<close> scope drop them.
\<close>

datatype leaf = ActorParams | CriticParams | CriticTargetParams | LogEntCoef

record 'a var =
  data :: 'a
  leaves :: "leaf set"

definition untracked :: "'a \<Rightarrow> 'a var" where
  "untracked x = \<lparr>data = x, leaves = {}\<rparr>"

definition tracked :: "leaf set \<Rightarrow> 'a \<Rightarrow> 'a var" where
  "tracked ls x = \<lparr>data = x, leaves = ls\<rparr>"

definition detach :: "'a var \<Rightarrow> 'a var" where
  "detach v = v\<lparr>leaves := {}\<rparr>"

definition NoGradGuard :: "'a var \<Rightarrow> 'a var" where
  "NoGradGuard v = v\<lparr>leaves := {}\<rparr>"

definition lift1 :: "('a \<Rightarrow> 'b) \<Rightarrow> 'a var \<Rightarrow> 'b var" where
  "lift1 f v = \<lparr>data = f (data v), leaves = leaves v\<rparr>"

definition lift2 :: "('a \<Rightarrow> 'b \<Rightarrow> 'c) \<Rightarrow> 'a var \<Rightarrow> 'b var \<Rightarrow> 'c var" where
  "lift2 f u v = \<lparr>data = f (data u) (data v), leaves = leaves u \<union> leaves v\<rparr>"

subsection \<open>Tensor arithmetic used by the losses\<close>

text \<open>\<^verbatim>\<open>Tensor::mean()\<close> (NaN for a tensor without entries), the product with a scalar
  tensor, and \<^verbatim>\<open>torch::mse_loss\<close>.\<close>

definition mean :: "tensor \<Rightarrow> fp" where
  "mean xs = sum_list xs / Fin (real (length xs))"

definition scale :: "fp \<Rightarrow> tensor \<Rightarrow> tensor" where
  "scale c xs = map (\<lambda>x. c * x) xs"

definition mse_loss :: "tensor \<Rightarrow> tensor \<Rightarrow> fp" where
  "mse_loss xs ys = mean (map2 (\<lambda>x y. (x - y) * (x - y)) xs ys)"

text \<open>\<^verbatim>\<open>std::get<0>(torch::stack(qs, 1).min(1))\<close>: the entrywise minimum over the
  members of the ensemble; \<^verbatim>\<open>torch::stack\<close> throws on an empty list.\<close>

fun stack_min :: "tensor list \<Rightarrow> error + tensor" where
  "stack_min [] = Inl EmptyStack"
| "stack_min [q] = Inr q"
| "stack_min (q # qs) = and_then (stack_min qs) (\<lambda>m. Inr (map2 fmin q m))"

lemma stack_min_length:
  "stack_min qs = Inr m \<Longrightarrow> q \<in> set qs \<Longrightarrow> length m \<le> length q"
proof (induction qs arbitrary: m rule: stack_min.induct)
  case 1
  then show ?case by simp
next
  case (2 q')
  then show ?case by simp
next
  case (3 q' r rs)
  from "3.prems"(1) obtain m' where m': "stack_min (r # rs) = Inr m'" and m: "m = map2 fmin q' m'"
    by (auto simp: and_then_Inr_iff)
  show ?case
  proof (cases "q = q'")
    case True
    then show ?thesis by (simp add: m)
  next
    case False
    with "3.prems"(2) have "q \<in> set (r # rs)" by simp
    from "3.IH" [OF m' this] show ?thesis by (simp add: m)
  qed
qed

lemma fmin_NaN: "fmin x y = NaN \<longleftrightarrow> x = NaN \<or> y = NaN"
  by (cases x; cases y) (simp_all add: fmin_def)

lemma fmin_least:
  "x \<noteq> NaN \<Longrightarrow> y \<noteq> NaN \<Longrightarrow> (fmin x y = x \<or> fmin x y = y) \<and> fle (fmin x y) x \<and> fle (fmin x y) y"
  by (cases x; cases y) (auto simp: fmin_def)

lemma fle_trans: "fle x y \<Longrightarrow> fle y z \<Longrightarrow> fle x z"
  by (cases x; cases y; cases z) simp_all

text \<open>An entry of the minimum over the ensemble is NaN when the entry of a member is;
  otherwise it is the entry of a member, and below the entry of every member.\<close>

lemma stack_min_entry:
  assumes "stack_min qs = Inr m" and "i < length m"
  shows "if \<exists>q \<in> set qs. q ! i = NaN then m ! i = NaN
         else m ! i \<in> (\<lambda>q. q ! i) ` set qs \<and> (\<forall>q \<in> set qs. fle (m ! i) (q ! i))"
  using assms
proof (induction qs arbitrary: m rule: stack_min.induct)
  case 1
  then show ?case by simp
next
  case (2 q)
  then show ?case by (cases "q ! i") simp_all
next
  case (3 q r rs)
  from "3.prems"(1) obtain m' where m': "stack_min (r # rs) = Inr m'" and m: "m = map2 fmin q m'"
    by (auto simp: and_then_Inr_iff)
  from "3.prems"(2) have i: "i < length q" "i < length m'" by (simp_all add: m)
  then have mi: "m ! i = fmin (q ! i) (m' ! i)" by (simp add: m)
  note IH = "3.IH" [OF m' i(2)]
  show ?case
  proof (cases "\<exists>x \<in> set (r # rs). x ! i = NaN")
    case True
    with IH have "m' ! i = NaN" by simp
    with True show ?thesis by (auto simp: mi fmin_NaN)
  next
    case False
    with IH have in': "m' ! i \<in> (\<lambda>x. x ! i) ` set (r # rs)"
      and le': "\<forall>x \<in> set (r # rs). fle (m' ! i) (x ! i)"
      by simp_all
    from in' False have n': "m' ! i \<noteq> NaN" by auto
    show ?thesis
    proof (cases "q ! i = NaN")
      case True
      then show ?thesis by (auto simp: mi fmin_NaN)
    next
      case nq: False
      note l = fmin_least [OF nq n']
      from l in' have "m ! i \<in> (\<lambda>x. x ! i) ` set (q # r # rs)"
        by (auto simp: mi)
      moreover from l le' have "\<forall>x \<in> set (q # r # rs). fle (m ! i) (x ! i)"
        by (auto simp: mi intro: fle_trans)
      ultimately show ?thesis using False nq by auto
    qed
  qed
qed

text \<open>A value of the log: the scalar tensor of a counter, or a mean. \<^verbatim>\<open>torch::stack(xs).mean()\<close>
  over a list of scalar tensors, and over a list of batch-shaped tensors.\<close>

datatype logged = LongItem int | FloatItem fp

definition stack_mean :: "fp list \<Rightarrow> error + logged" where
  "stack_mean xs = (if xs = [] then Inl EmptyStack else Inr (FloatItem (mean xs)))"

definition stack_mean_tensors :: "tensor list \<Rightarrow> error + logged" where
  "stack_mean_tensors xs = (if xs = [] then Inl EmptyStack else Inr (FloatItem (mean (concat xs))))"

subsection \<open>Archives, the log and the output\<close>

text \<open>A \<^verbatim>\<open>torch::serialize\<close> archive maps a key to a nested archive (the state of a
  network or of an optimizer) or to a tensor.\<close>

datatype 'opt entry = ModuleEntry module | OptimizerEntry 'opt | TensorEntry scalar

type_synonym 'opt archive = "string \<rightharpoonup> 'opt entry"

text \<open>\<^verbatim>\<open>tensor.item<T>()\<close>: the element converted to \<open>T\<close> as a C++ cast does.\<close>

fun item_Int :: "scalar \<Rightarrow> int" where
  "item_Int (Long n) = n"
| "item_Int (Float r) = (if 0 \<le> r then \<lfloor>r\<rfloor> else \<lceil>r\<rceil>)"
| "item_Int (Double r) = (if 0 \<le> r then \<lfloor>r\<rfloor> else \<lceil>r\<rceil>)"
| "item_Int (Bool b) = (if b then 1 else 0)"

fun item_double :: "scalar \<Rightarrow> real" where
  "item_double (Long n) = of_int n"
| "item_double (Float r) = r"
| "item_double (Double r) = r"
| "item_double (Bool b) = (if b then 1 else 0)"

fun item_bool :: "scalar \<Rightarrow> bool" where
  "item_bool (Long n) = (n \<noteq> 0)"
| "item_bool (Float r) = (r \<noteq> 0)"
| "item_bool (Double r) = (r \<noteq> 0)"
| "item_bool (Bool b) = b"

text \<open>What the object writes: the header of the log file (\<^verbatim>\<open>RL::Reset\<close>), a row on
  the console (\<^verbatim>\<open>PrintLog\<close>), a row of the log file (\<^verbatim>\<open>SaveLog\<close>), a checkpoint
  file (\<^verbatim>\<open>Save\<close>). \<^verbatim>\<open>log_items_\<close>, a \<^verbatim>\<open>std::unordered_map\<close>, is an association list
  with one pair per key; the header prints its keys, a row \<^verbatim>\<open>time_steps_\<close> and its
  values. The order in which the map is iterated is unspecified in C++ and is the
  order of insertion here.\<close>

type_synonym items = "(string \<times> logged option) list"

datatype 'opt written =
    LogHeader items
  | Printed int items
  | LogRow int items
  | Saved int "'opt archive"

text \<open>The optimizer steps and target computations of \<^verbatim>\<open>SAC::Train\<close>, recorded in
  program order in the field \<open>history\<close>.\<close>

datatype event = EntCoefStep | TargetQ | CriticStep | ActorStep | TargetSync

subsection \<open>The collaborators\<close>

record ('w, 'opt) collab =
  NumEnvs :: int
  MakeReplayBuffer :: replay_buffer
  MakeActor :: "'w \<Rightarrow> module \<times> 'w"
  MakeCritic :: "'w \<Rightarrow> module \<times> 'w"
  ResetCritic :: "module \<Rightarrow> 'w \<Rightarrow> module \<times> 'w"
  SampleAction :: "'w \<Rightarrow> tensor \<times> 'w"
  ResetEnv :: "'w \<Rightarrow> tensor \<times> 'w"
  Step :: "tensor \<Rightarrow> 'w \<Rightarrow> (tensor \<times> tensor \<times> tensor) \<times> 'w"
  PredictAction :: "module \<Rightarrow> tensor \<Rightarrow> 'w \<Rightarrow> tensor \<times> 'w"
  PredictActionLogProb :: "module \<Rightarrow> tensor \<Rightarrow> 'w \<Rightarrow> (tensor \<times> tensor) \<times> module \<times> 'w"
  Forward :: "module \<Rightarrow> tensor \<Rightarrow> tensor \<Rightarrow> tensor list \<times> module"
  Sample :: "replay_buffer \<Rightarrow> int \<Rightarrow> 'w \<Rightarrow> transition \<times> 'w"
  Adam :: "real list \<Rightarrow> real \<Rightarrow> 'opt"
  OptimizerStep :: "'opt \<Rightarrow> real list \<Rightarrow> tensor \<Rightarrow> 'opt \<times> real list"
  critic_loss_grad :: "module \<Rightarrow> transition \<Rightarrow> tensor \<Rightarrow> tensor"
  actor_loss_grad :: "module \<Rightarrow> module \<Rightarrow> tensor \<Rightarrow> fp \<Rightarrow> 'w \<Rightarrow> tensor"

text \<open>
  \<open>ResetCritic\<close> is \<^verbatim>\<open>SACCritic::Reset\<close>; \<open>PredictAction\<close>, \<open>PredictActionLogProb\<close> and
  \<open>Forward\<close> are the methods of \<^verbatim>\<open>SACActor\<close> and \<^verbatim>\<open>SACCritic\<close> (\<^verbatim>\<open>policy.h\<close>), the
  last two returning the network as the call leaves it; \<open>Adam\<close> builds
  \<^verbatim>\<open>torch::optim::Adam(params, AdamOptions(lr))\<close>; \<open>OptimizerStep opt params grad\<close> is
  \<^verbatim>\<open>zero_grad(); loss.backward(); step()\<close> for a loss whose gradient at \<open>params\<close> is
  \<open>grad\<close>; \<open>critic_loss_grad critic batch target_q\<close> and
  \<open>actor_loss_grad actor critic observation ent_coef w\<close> are the gradients autograd
  computes for the two losses through the networks (\<open>w\<close> the world in which the
  actions of the actor loss were sampled).
\<close>

subsection \<open>The classes RL and SAC\<close>

record ('w, 'opt) rl =
  num_iters :: int
  time_steps :: int
  max_time_steps :: int
  num_updates :: int
  monitor_interval :: int
  checkpoint_interval :: int
  output_path :: string
  log_items :: items
  world :: 'w
  outputs :: "'opt written list"

record ('w, 'opt) sac = "('w, 'opt) rl" +
  learning_starts :: int
  batch_size :: int
  lr :: real
  tau :: real
  gamma :: real
  ent_coef :: real
  target_entropy :: real
  auto_ent_coef :: bool
  auto_target_entropy :: bool
  train_freq :: int
  gradient_steps :: int
  target_update_interval :: int
  replay_buffer :: "replay_buffer option"
  actor :: "module option"
  critic :: "module option"
  critic_target :: "module option"
  actor_optimizer :: "'opt option"
  critic_optimizer :: "'opt option"
  ent_coef_optimizer :: "'opt option"
  log_ent_coef :: "real option"
  ent_coef_tensor :: "real option"
  current_observation :: tensor
  history :: "event list"

text \<open>
  The constructor \<^verbatim>\<open>SAC::SAC\<close>. Two members have no initializer and are assigned in
  one branch only: \<^verbatim>\<open>target_entropy_\<close> when a target entropy is supplied,
  \<^verbatim>\<open>auto_target_entropy_\<close> when none is. In the other branch the member keeps the
  indeterminate content of its storage, which is the argument \<open>junk_entropy\<close>,
  respectively \<open>junk_flag\<close>. \<^verbatim>\<open>observation_\<close> (here \<open>current_observation\<close>) starts as
  an undefined tensor and is assigned by \<^verbatim>\<open>Reset\<close> before any method reads it; it
  starts as the empty list.
\<close>

definition SAC_new ::
  "int \<Rightarrow> int \<Rightarrow> real \<Rightarrow> real \<Rightarrow> real \<Rightarrow> real \<Rightarrow> bool \<Rightarrow> real option \<Rightarrow> int \<Rightarrow> int \<Rightarrow> int \<Rightarrow> string
     \<Rightarrow> real \<Rightarrow> bool \<Rightarrow> 'w \<Rightarrow> ('w, 'opt) sac" where
  "SAC_new learning_starts0 batch_size0 lr0 tau0 gamma0 ent_coef0 auto_ent_coef0 target_entropy0
      train_freq0 gradient_steps0 target_update_interval0 output_path0 junk_entropy junk_flag w =
    \<lparr>num_iters = 0, time_steps = 0, max_time_steps = 0, num_updates = 0,
     monitor_interval = 0, checkpoint_interval = 0, output_path = output_path0,
     log_items = [], world = w, outputs = [],
     learning_starts = learning_starts0, batch_size = batch_size0, lr = lr0, tau = tau0,
     gamma = gamma0, ent_coef = ent_coef0,
     target_entropy = (case target_entropy0 of Some t \<Rightarrow> t | None \<Rightarrow> junk_entropy),
     auto_ent_coef = auto_ent_coef0,
     auto_target_entropy = (case target_entropy0 of Some t \<Rightarrow> junk_flag | None \<Rightarrow> True),
     train_freq = train_freq0, gradient_steps = gradient_steps0,
     target_update_interval = target_update_interval0,
     replay_buffer = None, actor = None, critic = None, critic_target = None,
     actor_optimizer = None, critic_optimizer = None, ent_coef_optimizer = None,
     log_ent_coef = None, ent_coef_tensor = None, current_observation = [], history = []\<rparr>"

subsection \<open>Reset\<close>

text \<open>\<^verbatim>\<open>SAC::RegisterLogItems\<close> overrides \<^verbatim>\<open>RL::RegisterLogItems\<close> and does not call it,
  so a \<^verbatim>\<open>SAC\<close> object never registers \<^verbatim>\<open>num_updates\<close>.\<close>

definition RegisterLogItems :: "('w, 'opt) sac \<Rightarrow> ('w, 'opt) sac" where
  "RegisterLogItems s =
    (let li = AList.update ''reward'' None (AList.update ''q_value'' None
                (AList.update ''critic_loss'' None (AList.update ''actor_loss'' None
                  (AList.update ''ent_coef'' None (log_items s)))))
     in s\<lparr>log_items := (if auto_ent_coef s then AList.update ''ent_coef_loss'' None li else li)\<rparr>)"

definition RL_Reset :: "('w, 'opt) sac \<Rightarrow> ('w, 'opt) sac" where
  "RL_Reset s =
    (let s1 = RegisterLogItems (s\<lparr>num_iters := 0, time_steps := 0, num_updates := 0\<rparr>)
     in if output_path s1 \<noteq> []
        then s1\<lparr>outputs := outputs s1 @ [LogHeader (log_items s1)]\<rparr>
        else s1)"

definition MakeActorOptimizer :: "('w, 'opt) collab \<Rightarrow> ('w, 'opt) sac \<Rightarrow> error + 'opt" where
  "MakeActorOptimizer ext s = and_then (deref (actor s)) (\<lambda>a. Inr (Adam ext (parameters a) (lr s)))"

definition MakeCriticOptimizer :: "('w, 'opt) collab \<Rightarrow> ('w, 'opt) sac \<Rightarrow> error + 'opt" where
  "MakeCriticOptimizer ext s = and_then (deref (critic s)) (\<lambda>c. Inr (Adam ext (parameters c) (lr s)))"

definition MakeEntropyOptimizer :: "('w, 'opt) collab \<Rightarrow> ('w, 'opt) sac \<Rightarrow> 'opt" where
  "MakeEntropyOptimizer ext s =
     Adam ext (case log_ent_coef s of None \<Rightarrow> [] | Some l \<Rightarrow> [l]) (lr s)"

text \<open>The networks of \<^verbatim>\<open>SAC::Reset\<close>, lines 58 to 68: the buffer, the actor, the critic
  and its target, which is reset, put in evaluation mode and overwritten with the
  critic's state.\<close>

definition make_networks :: "('w, 'opt) collab \<Rightarrow> ('w, 'opt) sac \<Rightarrow> ('w, 'opt) sac" where
  "make_networks ext s =
    (let (a, w1) = MakeActor ext (world s);
         (c0, w2) = MakeCritic ext w1;
         (c, w3) = ResetCritic ext c0 w2;
         (t0, w4) = MakeCritic ext w3;
         (t1, w5) = ResetCritic ext t0 w4;
         t = CopyStateDict c (t1\<lparr>training := False\<rparr>)
     in s\<lparr>replay_buffer := Some (MakeReplayBuffer ext), actor := Some a, critic := Some c,
          critic_target := Some t, world := w5\<rparr>)"

text \<open>The entropy coefficient of \<^verbatim>\<open>SAC::Reset\<close>, lines 71 to 82.\<close>

definition init_ent_coef ::
  "('w, 'opt) collab \<Rightarrow> ('w, 'opt) sac \<Rightarrow> error + ('w, 'opt) sac" where
  "init_ent_coef ext s =
    (if auto_ent_coef s then
       (let s1 = s\<lparr>log_ent_coef := Some (ln (1 * ent_coef s))\<rparr>;
            s2 = s1\<lparr>ent_coef_optimizer := Some (MakeEntropyOptimizer ext s1)\<rparr>
        in if auto_target_entropy s2
           then and_then (deref (replay_buffer s2)) (\<lambda>b.
                  Inr (s2\<lparr>target_entropy :=
                            foldl (\<lambda>t size. t * real_of_int size) (- 1) (action_sizes b)\<rparr>))
           else Inr s2)
     else Inr (s\<lparr>ent_coef_tensor := Some (float32 (ent_coef s))\<rparr>))"

definition Reset :: "('w, 'opt) collab \<Rightarrow> ('w, 'opt) sac \<Rightarrow> error + ('w, 'opt) sac" where
  "Reset ext s =
    (let s1 = make_networks ext (RL_Reset s)
     in and_then (MakeActorOptimizer ext s1) (\<lambda>ao.
        and_then (MakeCriticOptimizer ext s1) (\<lambda>co.
        and_then (init_ent_coef ext (s1\<lparr>actor_optimizer := Some ao, critic_optimizer := Some co\<rparr>))
          (\<lambda>s2. (let (obs, w) = ResetEnv ext (world s2)
                 in Inr (s2\<lparr>current_observation := obs, world := w\<rparr>))))))"

subsection \<open>CollectRollouts\<close>

definition store_transition ::
  "tensor \<Rightarrow> tensor \<Rightarrow> tensor \<Rightarrow> tensor \<Rightarrow> ('w, 'opt) sac \<Rightarrow> error + ('w, 'opt) sac" where
  "store_transition a next_obs r d s =
     and_then (deref (replay_buffer s)) (\<lambda>b.
       Inr (s\<lparr>replay_buffer := Some (Add \<lparr>observation = current_observation s, action = a,
                 next_observation = next_obs, reward = r, is_done = d\<rparr> b),
              current_observation := next_obs\<rparr>))"

text \<open>The body of the warmup loop (lines 102 to 105) and of the policy loop (lines 109
  to 113).\<close>

definition warmup_step :: "('w, 'opt) collab \<Rightarrow> ('w, 'opt) sac \<Rightarrow> error + ('w, 'opt) sac" where
  "warmup_step ext s =
    (let (a, w1) = SampleAction ext (world s);
         ((next_obs, r, d), w2) = Step ext a w1
     in store_transition a next_obs r d (s\<lparr>world := w2\<rparr>))"

definition policy_step :: "('w, 'opt) collab \<Rightarrow> ('w, 'opt) sac \<Rightarrow> error + ('w, 'opt) sac" where
  "policy_step ext s =
     and_then (deref (actor s)) (\<lambda>act.
      (let (a, w1) = PredictAction ext act (current_observation s) (world s);
           ((next_obs, r, d), w2) = Step ext a w1
       in and_then (store_transition a next_obs r d (s\<lparr>world := w2\<rparr>)) (\<lambda>s1.
            Inr (s1\<lparr>time_steps := time_steps s1 + NumEnvs ext\<rparr>))))"

lemma store_transition_bounds:
  "store_transition a n r d s = Inr s' \<Longrightarrow>
     learning_starts s' = learning_starts s \<and> train_freq s' = train_freq s"
  by (auto simp: store_transition_def and_then_def deref_def split: option.splits)

lemma warmup_step_learning_starts:
  "warmup_step ext s = Inr s' \<Longrightarrow> learning_starts s' = learning_starts s"
  by (auto simp: warmup_step_def Let_def split: prod.splits dest!: store_transition_bounds)

lemma policy_step_train_freq:
  "policy_step ext s = Inr s' \<Longrightarrow> train_freq s' = train_freq s"
  by (auto simp: policy_step_def and_then_def deref_def Let_def
           split: prod.splits option.splits sum.splits dest!: store_transition_bounds)

function warmup_loop ::
  "('w, 'opt) collab \<Rightarrow> int \<Rightarrow> ('w, 'opt) sac \<Rightarrow> error + ('w, 'opt) sac" where
  "warmup_loop ext step s =
     (if step < learning_starts s
      then (case warmup_step ext s of Inl e \<Rightarrow> Inl e | Inr s' \<Rightarrow> warmup_loop ext (step + 1) s')
      else Inr s)"
  by pat_completeness auto
termination
  by (relation "measure (\<lambda>(ext, step, s). nat (learning_starts s - step))")
     (auto dest: warmup_step_learning_starts)

function policy_loop ::
  "('w, 'opt) collab \<Rightarrow> int \<Rightarrow> ('w, 'opt) sac \<Rightarrow> error + ('w, 'opt) sac" where
  "policy_loop ext step s =
     (if step < train_freq s
      then (case policy_step ext s of Inl e \<Rightarrow> Inl e | Inr s' \<Rightarrow> policy_loop ext (step + 1) s')
      else Inr s)"
  by pat_completeness auto
termination
  by (relation "measure (\<lambda>(ext, step, s). nat (train_freq s - step))")
     (auto dest: policy_step_train_freq)

definition CollectRollouts :: "('w, 'opt) collab \<Rightarrow> ('w, 'opt) sac \<Rightarrow> error + ('w, 'opt) sac" where
  "CollectRollouts ext s =
     and_then (deref (actor s)) (\<lambda>a.
     and_then (deref (critic s)) (\<lambda>c.
       (let s1 = s\<lparr>actor := Some (a\<lparr>training := False\<rparr>), critic := Some (c\<lparr>training := False\<rparr>)\<rparr>
        in and_then (if num_iters s1 = 0 then warmup_loop ext 0 s1 else Inr s1)
             (\<lambda>s2. policy_loop ext 0 s2))))"

subsection \<open>Train: one gradient step\<close>

text \<open>The six lists of \<^verbatim>\<open>SAC::Train\<close> (lines 124 to 129).\<close>

record loss_lists =
  ent_coef_list :: "fp list"
  actor_loss_list :: "fp list"
  critic_loss_list :: "fp list"
  ent_coef_loss_list :: "fp list"
  q_value_list :: "tensor list"
  reward_list :: "tensor list"

definition empty_lists :: loss_lists where
  "empty_lists = \<lparr>ent_coef_list = [], actor_loss_list = [], critic_loss_list = [],
                   ent_coef_loss_list = [], q_value_list = [], reward_list = []\<rparr>"

text \<open>The values one gradient step computes, with the leaves autograd tracks for
  each: the local variables of the loop body that the losses are built from.\<close>

record step_values =
  batch_of :: transition
  ent_coef_of :: "fp var"
  ent_coef_loss_of :: "fp var option"
  target_q_values_of :: "tensor var"
  critic_loss_of :: "fp var"
  actor_loss_of :: "fp var"

text \<open>C++ \<^verbatim>\<open>a % b\<close> for \<open>b \<noteq> 0\<close>: the remainder of the division truncated towards
  zero.\<close>

definition c_rem :: "int \<Rightarrow> int \<Rightarrow> int" where
  "c_rem a b = sgn a * (\<bar>a\<bar> mod \<bar>b\<bar>)"

lemma c_rem_0 [simp]: "c_rem 0 b = 0"
  by (simp add: c_rem_def)

text \<open>Lines 141 to 148: the entropy coefficient and, in auto mode, its loss
  \<^verbatim>\<open>-(log_ent_coef_ * (log_prob + target_entropy_).detach()).mean()\<close>.\<close>

definition auto_mode :: "('w, 'opt) sac \<Rightarrow> bool" where
  "auto_mode s = (ent_coef_optimizer s \<noteq> None \<and> log_ent_coef s \<noteq> None)"

definition entropy_coefficient ::
  "('w, 'opt) sac \<Rightarrow> tensor var \<Rightarrow> error + (fp var \<times> fp var option)" where
  "entropy_coefficient s log_prob =
    (case (ent_coef_optimizer s, log_ent_coef s) of
       (Some opt, Some l) \<Rightarrow>
         (let lec = tracked {LogEntCoef} (Fin l)
          in Inr (lift1 fexp (detach lec),
                  Some (lift1 uminus (lift1 mean (lift2 scale lec
                     (detach (lift1 (map (\<lambda>x. x + Fin (target_entropy s))) log_prob)))))))
     | _ \<Rightarrow> (case ent_coef_tensor s of
               None \<Rightarrow> Inl UndefinedTensor
             | Some e \<Rightarrow> Inr (untracked (Fin e), None)))"

text \<open>Lines 149 to 153: the step of the entropy optimizer. The gradient of the loss
  above at \<^verbatim>\<open>log_ent_coef_\<close> is \<open>- mean (log_prob + target_entropy)\<close>.\<close>

definition step_scalar :: "('w, 'opt) collab \<Rightarrow> 'opt \<Rightarrow> real \<Rightarrow> fp \<Rightarrow> 'opt \<times> real" where
  "step_scalar ext opt p g =
    (case OptimizerStep ext opt [p] [g] of
       (opt', ps) \<Rightarrow> (opt', (case ps of [] \<Rightarrow> p | q # qs \<Rightarrow> q)))"

definition entropy_step ::
  "('w, 'opt) collab \<Rightarrow> tensor \<Rightarrow> ('w, 'opt) sac \<Rightarrow> ('w, 'opt) sac" where
  "entropy_step ext log_prob s =
    (case (ent_coef_optimizer s, log_ent_coef s) of
       (Some opt, Some l) \<Rightarrow>
         (let (opt', l') = step_scalar ext opt l
                              (- mean (map (\<lambda>x. x + Fin (target_entropy s)) log_prob))
          in s\<lparr>ent_coef_optimizer := Some opt', log_ent_coef := Some l',
                history := history s @ [EntCoefStep]\<rparr>)
     | _ \<Rightarrow> s)"

text \<open>Lines 154 to 161: the target Q-values, computed inside a \<^verbatim>\<open>NoGradGuard\<close> scope.\<close>

definition target_formula ::
  "real \<Rightarrow> tensor var \<Rightarrow> tensor var \<Rightarrow> fp var \<Rightarrow> tensor var \<Rightarrow> tensor var \<Rightarrow> tensor var" where
  "target_formula g rew dn ec next_min next_log_prob =
    (let next_q_values = lift2 (map2 (-)) next_min (lift2 scale ec next_log_prob)
     in lift2 (map2 (+)) rew
          (lift2 (map2 (*)) (lift1 (map (\<lambda>d. (1 - d) * Fin g)) dn) next_q_values))"

definition target_q_values ::
  "('w, 'opt) collab \<Rightarrow> transition \<Rightarrow> fp var \<Rightarrow> ('w, 'opt) sac
     \<Rightarrow> error + (tensor var \<times> ('w, 'opt) sac)" where
  "target_q_values ext batch ec s =
     and_then (deref (actor s)) (\<lambda>a.
      (let ((next_actions, next_log_prob), a', w') =
              PredictActionLogProb ext a (next_observation batch) (world s)
       in and_then (deref (critic_target s)) (\<lambda>t.
           (let (qs, t') = Forward ext t (next_observation batch) next_actions
            in and_then (stack_min qs) (\<lambda>m.
                 Inr (NoGradGuard
                        (target_formula (gamma s) (untracked (reward batch))
                           (untracked (is_done batch)) ec
                           (tracked {CriticTargetParams, ActorParams} m)
                           (tracked {ActorParams} next_log_prob)),
                      s\<lparr>actor := Some a', critic_target := Some t', world := w',
                        history := history s @ [TargetQ]\<rparr>))))))"

text \<open>Lines 162 to 175: the critic loss, the mean over the ensemble of the mean squared
  errors to the target, and the step of the critic optimizer.\<close>

definition critic_loss_value :: "tensor list \<Rightarrow> tensor var \<Rightarrow> fp var" where
  "critic_loss_value current_q_values tq =
     lift1 (\<lambda>l. l / Fin (real (length current_q_values)))
       (foldl (\<lambda>l q. lift2 (+) l (lift2 mse_loss (tracked {CriticParams} q) tq))
          (untracked (Fin 0)) current_q_values)"

definition update_critic ::
  "('w, 'opt) collab \<Rightarrow> transition \<Rightarrow> tensor var \<Rightarrow> ('w, 'opt) sac
     \<Rightarrow> error + (fp var \<times> tensor \<times> ('w, 'opt) sac)" where
  "update_critic ext batch tq s =
     and_then (deref (critic s)) (\<lambda>c.
      (let (current_q_values, c') = Forward ext c (observation batch) (action batch)
       in and_then (stack_min current_q_values) (\<lambda>min_q_value.
          and_then (deref (critic_optimizer s)) (\<lambda>opt.
           (let (opt', ps) = OptimizerStep ext opt (parameters c')
                               (critic_loss_grad ext c batch (data tq))
            in Inr (critic_loss_value current_q_values tq, min_q_value,
                    s\<lparr>critic := Some (c'\<lparr>parameters := ps\<rparr>), critic_optimizer := Some opt',
                      history := history s @ [CriticStep]\<rparr>))))))"

text \<open>Lines 177 to 183: the actor loss \<^verbatim>\<open>(ent_coef * log_prob - min_qf_pi).mean()\<close>
  through the live critic, and the step of the actor optimizer. \<open>w0\<close> is the world in
  which \<open>actions_pi\<close> were sampled.\<close>

definition update_actor ::
  "('w, 'opt) collab \<Rightarrow> transition \<Rightarrow> tensor var \<Rightarrow> tensor var \<Rightarrow> fp var \<Rightarrow> 'w
     \<Rightarrow> ('w, 'opt) sac \<Rightarrow> error + (fp var \<times> ('w, 'opt) sac)" where
  "update_actor ext batch actions_pi log_prob ec w0 s =
     and_then (deref (critic s)) (\<lambda>c.
      (let (q_values_pi, c') = Forward ext c (observation batch) (data actions_pi)
       in and_then (stack_min q_values_pi) (\<lambda>m.
          and_then (deref (actor s)) (\<lambda>a.
          and_then (deref (actor_optimizer s)) (\<lambda>opt.
           (let min_qf_pi = tracked ({CriticParams} \<union> leaves actions_pi) m;
                (opt', ps) = OptimizerStep ext opt (parameters a)
                               (actor_loss_grad ext a c (observation batch) (data ec) w0)
            in Inr (lift1 mean (lift2 (map2 (-)) (lift2 scale ec log_prob) min_qf_pi),
                    s\<lparr>critic := Some c', actor := Some (a\<lparr>parameters := ps\<rparr>),
                      actor_optimizer := Some opt',
                      history := history s @ [ActorStep]\<rparr>)))))))"

text \<open>Lines 185 to 192: the synchronization of the target, on the steps whose index is
  a multiple of \<^verbatim>\<open>target_update_interval_\<close>; the remainder by zero is a crash.\<close>

definition update_target :: "int \<Rightarrow> ('w, 'opt) sac \<Rightarrow> error + ('w, 'opt) sac" where
  "update_target step s =
    (if target_update_interval s = 0 then Inl DivisionByZero
     else if c_rem step (target_update_interval s) = 0 then
       and_then (deref (critic s)) (\<lambda>c.
       and_then (deref (critic_target s)) (\<lambda>t.
         Inr (s\<lparr>critic_target :=
                  Some (t\<lparr>parameters := PolyakUpdate (parameters c) (parameters t) (tau s),
                          buffers := PolyakUpdate (buffers c) (buffers t) 1\<rparr>),
                history := history s @ [TargetSync]\<rparr>)))
     else Inr s)"

text \<open>The body of the loop of \<^verbatim>\<open>SAC::Train\<close>, lines 137 to 192.\<close>

definition gradient_step ::
  "('w, 'opt) collab \<Rightarrow> int \<Rightarrow> ('w, 'opt) sac \<Rightarrow> loss_lists
     \<Rightarrow> error + (('w, 'opt) sac \<times> loss_lists \<times> step_values)" where
  "gradient_step ext step s ls =
     and_then (deref (replay_buffer s)) (\<lambda>rb.
      (let (batch, w0) = Sample ext rb (batch_size s) (world s)
       in and_then (deref (actor s)) (\<lambda>a.
        (let ((acts, lp), a', w1) = PredictActionLogProb ext a (observation batch) w0;
             actions_pi = tracked {ActorParams} acts;
             log_prob = tracked {ActorParams} lp;
             s1 = s\<lparr>actor := Some a', world := w1\<rparr>
         in and_then (entropy_coefficient s1 log_prob) (\<lambda>(ec, ec_loss).
             (let s2 = entropy_step ext lp s1
              in and_then (target_q_values ext batch ec s2) (\<lambda>(tq, s3).
                 and_then (update_critic ext batch tq s3) (\<lambda>(c_loss, min_q_value, s4).
                 and_then (update_actor ext batch actions_pi log_prob ec w0 s4) (\<lambda>(a_loss, s5).
                 and_then (update_target step s5) (\<lambda>s6.
                   Inr (s6,
                        \<lparr>ent_coef_list = ent_coef_list ls @ [data ec],
                         actor_loss_list = actor_loss_list ls @ [data a_loss],
                         critic_loss_list = critic_loss_list ls @ [data c_loss],
                         ent_coef_loss_list = ent_coef_loss_list ls @
                            (case ec_loss of None \<Rightarrow> [] | Some l \<Rightarrow> [data l]),
                         q_value_list = q_value_list ls @ [min_q_value],
                         reward_list = reward_list ls @ [reward batch]\<rparr>,
                        \<lparr>batch_of = batch, ent_coef_of = ec, ent_coef_loss_of = ec_loss,
                         target_q_values_of = tq, critic_loss_of = c_loss,
                         actor_loss_of = a_loss\<rparr>)))))))))))"

text \<open>The blocks of a gradient step that succeeded.\<close>

lemma gradient_step_blocks:
  assumes "gradient_step ext step s ls = Inr (s', ls', v)"
  obtains rb a batch w0 acts lp a' w1 ec ec_loss tq s3 c_loss mq s4 a_loss s5 where
    "replay_buffer s = Some rb" "actor s = Some a"
    "Sample ext rb (batch_size s) (world s) = (batch, w0)"
    "PredictActionLogProb ext a (observation batch) w0 = ((acts, lp), a', w1)"
    "entropy_coefficient (s\<lparr>actor := Some a', world := w1\<rparr>) (tracked {ActorParams} lp) = Inr (ec, ec_loss)"
    "target_q_values ext batch ec (entropy_step ext lp (s\<lparr>actor := Some a', world := w1\<rparr>)) = Inr (tq, s3)"
    "update_critic ext batch tq s3 = Inr (c_loss, mq, s4)"
    "update_actor ext batch (tracked {ActorParams} acts) (tracked {ActorParams} lp) ec w0 s4 = Inr (a_loss, s5)"
    "update_target step s5 = Inr s'"
    "v = \<lparr>batch_of = batch, ent_coef_of = ec, ent_coef_loss_of = ec_loss,
          target_q_values_of = tq, critic_loss_of = c_loss, actor_loss_of = a_loss\<rparr>"
    "ls' = \<lparr>ent_coef_list = ent_coef_list ls @ [data ec],
            actor_loss_list = actor_loss_list ls @ [data a_loss],
            critic_loss_list = critic_loss_list ls @ [data c_loss],
            ent_coef_loss_list = ent_coef_loss_list ls @
               (case ec_loss of None \<Rightarrow> [] | Some l \<Rightarrow> [data l]),
            q_value_list = q_value_list ls @ [mq],
            reward_list = reward_list ls @ [reward batch]\<rparr>"
proof -
  from assms obtain rb a where rb: "replay_buffer s = Some rb" and a: "actor s = Some a"
    by (auto simp: gradient_step_def and_then_def deref_def Let_def
             split: option.splits prod.splits sum.splits)
  obtain batch w0 where smp: "Sample ext rb (batch_size s) (world s) = (batch, w0)"
    by (cases "Sample ext rb (batch_size s) (world s)")
  obtain acts lp a' w1 where
    pr: "PredictActionLogProb ext a (observation batch) w0 = ((acts, lp), a', w1)"
    by (cases "PredictActionLogProb ext a (observation batch) w0") auto
  from assms rb a smp pr show ?thesis
    by (auto simp: gradient_step_def and_then_Inr_iff Let_def intro!: that)
qed

definition target_tensor :: "real \<Rightarrow> tensor \<Rightarrow> tensor \<Rightarrow> fp \<Rightarrow> tensor \<Rightarrow> tensor \<Rightarrow> tensor" where
  "target_tensor g r dn ec nq nlp =
     map2 (+) r (map2 (*) (map (\<lambda>d. (1 - d) * Fin g) dn) (map2 (-) nq (scale ec nlp)))"

lemma target_formula_data:
  "data (target_formula g rew dn ec nm nlp) =
     target_tensor g (data rew) (data dn) (data ec) (data nm) (data nlp)"
  by (simp add: target_formula_def target_tensor_def lift2_def lift1_def Let_def del: fp_minus)

lemma target_entry:
  assumes "i < length (target_tensor g r dn ec nq nlp)"
  shows "target_tensor g r dn ec nq nlp ! i
         = r ! i + (1 - dn ! i) * Fin g * (nq ! i - ec * nlp ! i)"
  using assms by (simp add: target_tensor_def scale_def del: fp_minus fp_constants)

text \<open>Where the flag is 1 and the bootstrap term is finite, the entry is the reward.\<close>

lemma target_entry_done:
  assumes "d = Fin 1" and "q = Fin x"
  shows "r + (1 - d) * Fin g * q = r"
  using assms by simp

lemma target_q_values_result:
  assumes "target_q_values ext batch ec s = Inr (tq, s')"
    and "actor s = Some a" and "critic_target s = Some t"
    and "PredictActionLogProb ext a (next_observation batch) (world s) = ((na, nlp), a', w')"
    and "Forward ext t (next_observation batch) na = (qs, t')"
  shows "leaves tq = {} \<and> (\<exists>nq. stack_min qs = Inr nq \<and>
     data tq = target_tensor (gamma s) (reward batch) (is_done batch) (data ec) nq nlp)
     \<and> s' = s\<lparr>actor := Some a', critic_target := Some t', world := w', history := history s @ [TargetQ]\<rparr>"
  using assms
  by (auto simp: target_q_values_def and_then_Inr_iff NoGradGuard_def target_formula_data
        untracked_def tracked_def)

subsection \<open>What a gradient step leaves alone\<close>

text \<open>The members no statement of the loop body assigns.\<close>

definition untouched ::
  "('w, 'opt) sac \<Rightarrow>
     (int \<times> int \<times> int \<times> int \<times> int \<times> int \<times> string \<times> items \<times> 'opt written list) \<times>
     (int \<times> int \<times> real \<times> real \<times> real \<times> real \<times> real \<times> bool \<times> bool \<times> int \<times> int \<times> int) \<times>
     (replay_buffer option \<times> real option \<times> tensor)" where
  "untouched s =
    ((num_iters s, time_steps s, max_time_steps s, num_updates s, monitor_interval s,
      checkpoint_interval s, output_path s, log_items s, outputs s),
     (learning_starts s, batch_size s, lr s, tau s, gamma s, ent_coef s, target_entropy s,
      auto_ent_coef s, auto_target_entropy s, train_freq s, gradient_steps s,
      target_update_interval s),
     (replay_buffer s, ent_coef_tensor s, current_observation s))"

lemma entropy_step_untouched: "untouched (entropy_step ext lp s) = untouched s"
  by (simp add: entropy_step_def untouched_def Let_def split: option.splits prod.splits)

lemma target_q_values_untouched:
  "target_q_values ext b ec s = Inr (tq, s') \<Longrightarrow> untouched s' = untouched s"
  by (auto simp: target_q_values_def and_then_def deref_def untouched_def Let_def
           split: option.splits prod.splits sum.splits)

lemma update_critic_untouched:
  "update_critic ext b tq s = Inr (l, m, s') \<Longrightarrow> untouched s' = untouched s"
  by (auto simp: update_critic_def and_then_def deref_def untouched_def Let_def
           split: option.splits prod.splits sum.splits)

lemma update_actor_untouched:
  "update_actor ext b ap lp ec w0 s = Inr (l, s') \<Longrightarrow> untouched s' = untouched s"
  by (auto simp: update_actor_def and_then_def deref_def untouched_def Let_def
           split: option.splits prod.splits sum.splits)

lemma update_target_untouched:
  "update_target step s = Inr s' \<Longrightarrow> untouched s' = untouched s"
  by (auto simp: update_target_def and_then_def deref_def untouched_def
           split: option.splits if_splits)

lemma gradient_step_untouched:
  assumes "gradient_step ext step s ls = Inr (s', ls', v)"
  shows "untouched s' = untouched s"
proof -
  from assms obtain lp a' w1 b ec tq s3 c_loss mq s4 ap lpv w0 a_loss s5 where
    t: "target_q_values ext b ec (entropy_step ext lp (s\<lparr>actor := Some a', world := w1\<rparr>)) = Inr (tq, s3)" and
    c: "update_critic ext b tq s3 = Inr (c_loss, mq, s4)" and
    ac: "update_actor ext b ap lpv ec w0 s4 = Inr (a_loss, s5)" and
    u: "update_target step s5 = Inr s'"
    by (rule gradient_step_blocks)
  have "untouched (entropy_step ext lp (s\<lparr>actor := Some a', world := w1\<rparr>)) = untouched s"
    by (simp add: entropy_step_untouched) (simp add: untouched_def)
  with target_q_values_untouched [OF t] update_critic_untouched [OF c]
    update_actor_untouched [OF ac] update_target_untouched [OF u]
  show ?thesis by simp
qed

lemma gradient_step_gradient_steps:
  "gradient_step ext step s ls = Inr (s', ls', v) \<Longrightarrow> gradient_steps s' = gradient_steps s"
  by (drule gradient_step_untouched) (simp add: untouched_def)

subsection \<open>Train\<close>

function train_loop ::
  "('w, 'opt) collab \<Rightarrow> int \<Rightarrow> ('w, 'opt) sac \<Rightarrow> loss_lists
     \<Rightarrow> error + (('w, 'opt) sac \<times> loss_lists)" where
  "train_loop ext step s ls =
     (if step < gradient_steps s
      then (case gradient_step ext step s ls of
              Inl e \<Rightarrow> Inl e
            | Inr (s', ls', v) \<Rightarrow> train_loop ext (step + 1) s' ls')
      else Inr (s, ls))"
  by pat_completeness auto
termination
  by (relation "measure (\<lambda>(ext, step, s, ls). nat (gradient_steps s - step))")
     (auto dest: gradient_step_gradient_steps)

text \<open>Lines 196 to 216: \<^verbatim>\<open>it = log_items_.find(key); if (it != end) it->second = v\<close>, where
  computing \<open>v\<close> may throw.\<close>

definition set_item ::
  "string \<Rightarrow> error + logged \<Rightarrow> ('w, 'opt) sac \<Rightarrow> error + ('w, 'opt) sac" where
  "set_item k v s =
    (if map_of (log_items s) k = None then Inr s
     else and_then v (\<lambda>x. Inr (s\<lparr>log_items := AList.update k (Some x) (log_items s)\<rparr>)))"

definition record_log_items :: "loss_lists \<Rightarrow> ('w, 'opt) sac \<Rightarrow> error + ('w, 'opt) sac" where
  "record_log_items ls s =
    (if log_items s = [] then Inr s
     else and_then (set_item ''num_updates'' (Inr (LongItem (num_updates s))) s) (\<lambda>s1.
          and_then (set_item ''ent_coef'' (stack_mean (ent_coef_list ls)) s1) (\<lambda>s2.
          and_then (set_item ''actor_loss'' (stack_mean (actor_loss_list ls)) s2) (\<lambda>s3.
          and_then (set_item ''critic_loss'' (stack_mean (critic_loss_list ls)) s3) (\<lambda>s4.
          and_then (set_item ''ent_coef_loss'' (stack_mean (ent_coef_loss_list ls)) s4) (\<lambda>s5.
          and_then (set_item ''q_value'' (stack_mean_tensors (q_value_list ls)) s5) (\<lambda>s6.
          set_item ''reward'' (stack_mean_tensors (reward_list ls)) s6)))))))"

definition Train :: "('w, 'opt) collab \<Rightarrow> ('w, 'opt) sac \<Rightarrow> error + ('w, 'opt) sac" where
  "Train ext s =
     and_then (deref (actor s)) (\<lambda>a.
     and_then (deref (critic s)) (\<lambda>c.
     and_then (train_loop ext 0
                 (s\<lparr>actor := Some (a\<lparr>training := True\<rparr>), critic := Some (c\<lparr>training := True\<rparr>)\<rparr>)
                 empty_lists) (\<lambda>(s1, ls).
       record_log_items ls (s1\<lparr>num_updates := num_updates s1 + gradient_steps s1\<rparr>))))"

subsection \<open>SaveArchive and LoadArchive\<close>

definition wants :: "string set \<Rightarrow> string \<Rightarrow> bool" where
  "wants names k = (''all'' \<in> names \<or> k \<in> names)"

definition save_module ::
  "string set \<Rightarrow> string \<Rightarrow> module option \<Rightarrow> 'opt archive \<Rightarrow> error + 'opt archive" where
  "save_module names k m a =
    (if wants names k then and_then (deref m) (\<lambda>x. Inr (a(k \<mapsto> ModuleEntry x))) else Inr a)"

definition save_optimizer ::
  "string set \<Rightarrow> string \<Rightarrow> 'opt option \<Rightarrow> 'opt archive \<Rightarrow> error + 'opt archive" where
  "save_optimizer names k opt a =
    (if wants names k then and_then (deref opt) (\<lambda>x. Inr (a(k \<mapsto> OptimizerEntry x))) else Inr a)"

text \<open>Lines 335 to 349. \<^verbatim>\<open>torch::tensor\<close> of an \<^verbatim>\<open>Int\<close> or a \<^verbatim>\<open>bool\<close> keeps the value;
  of a \<^verbatim>\<open>double\<close> it makes a \<^verbatim>\<open>float\<close> tensor, no element type being given. The two
  tensors of the entropy coefficient are written as they are.\<close>

definition save_hparams :: "('w, 'opt) sac \<Rightarrow> 'opt archive \<Rightarrow> 'opt archive" where
  "save_hparams s a =
    (let a1 = a(''learning_starts'' \<mapsto> TensorEntry (Long (learning_starts s)),
                ''batch_size'' \<mapsto> TensorEntry (Long (batch_size s)),
                ''lr'' \<mapsto> TensorEntry (Float (float32 (lr s))),
                ''tau'' \<mapsto> TensorEntry (Float (float32 (tau s))),
                ''gamma'' \<mapsto> TensorEntry (Float (float32 (gamma s))),
                ''ent_coef'' \<mapsto> TensorEntry (Float (float32 (ent_coef s))),
                ''target_entropy'' \<mapsto> TensorEntry (Float (float32 (target_entropy s))),
                ''auto_ent_coef'' \<mapsto> TensorEntry (Bool (auto_ent_coef s)),
                ''train_freq'' \<mapsto> TensorEntry (Long (train_freq s)),
                ''gradient_steps'' \<mapsto> TensorEntry (Long (gradient_steps s)),
                ''target_update_interval'' \<mapsto> TensorEntry (Long (target_update_interval s)));
         a2 = (case log_ent_coef s of None \<Rightarrow> a1
               | Some l \<Rightarrow> a1(''log_ent_coef'' \<mapsto> TensorEntry (Float l)))
     in (case ent_coef_tensor s of None \<Rightarrow> a2
         | Some e \<Rightarrow> a2(''ent_coef_tensor'' \<mapsto> TensorEntry (Float e))))"

definition SaveArchive ::
  "('w, 'opt) sac \<Rightarrow> string set \<Rightarrow> 'opt archive \<Rightarrow> error + 'opt archive" where
  "SaveArchive s names a =
     and_then (save_module names ''actor'' (actor s) a) (\<lambda>a1.
     and_then (save_module names ''critic'' (critic s) a1) (\<lambda>a2.
     and_then (save_module names ''critic_target'' (critic_target s) a2) (\<lambda>a3.
     and_then (save_optimizer names ''actor_optimizer'' (actor_optimizer s) a3) (\<lambda>a4.
     and_then (save_optimizer names ''critic_optimizer'' (critic_optimizer s) a4) (\<lambda>a5.
       (let a6 = (case ent_coef_optimizer s of
                    Some opt \<Rightarrow> if wants names ''ent_coef_optimizer''
                                then a5(''ent_coef_optimizer'' \<mapsto> OptimizerEntry opt) else a5
                  | None \<Rightarrow> a5)
        in Inr (if wants names ''hparams'' then save_hparams s a6 else a6)))))))"

text \<open>\<^verbatim>\<open>archive->try_read(key, x)\<close> is false when the archive has no entry of the kind
  of \<open>x\<close> under the key.\<close>

definition read_module :: "'opt archive \<Rightarrow> string \<Rightarrow> module option" where
  "read_module a k = (case a k of Some (ModuleEntry m) \<Rightarrow> Some m | _ \<Rightarrow> None)"

definition read_optimizer :: "'opt archive \<Rightarrow> string \<Rightarrow> 'opt option" where
  "read_optimizer a k = (case a k of Some (OptimizerEntry opt) \<Rightarrow> Some opt | _ \<Rightarrow> None)"

definition read_tensor :: "'opt archive \<Rightarrow> string \<Rightarrow> scalar option" where
  "read_tensor a k = (case a k of Some (TensorEntry v) \<Rightarrow> Some v | _ \<Rightarrow> None)"

text \<open>\<^verbatim>\<open>module->load(archive)\<close> overwrites the parameters and the buffers of the
  network in place.\<close>

definition load_module :: "module \<Rightarrow> module option \<Rightarrow> error + module option" where
  "load_module m p = and_then (deref p) (\<lambda>x. Inr (Some (x\<lparr>parameters := parameters m, buffers := buffers m\<rparr>)))"

definition load_optimizer :: "'opt \<Rightarrow> 'opt option \<Rightarrow> error + 'opt option" where
  "load_optimizer opt p = and_then (deref p) (\<lambda>x. Inr (Some opt))"

definition load_networks ::
  "'opt archive \<Rightarrow> string set \<Rightarrow> ('w, 'opt) sac \<Rightarrow> error + ('w, 'opt) sac" where
  "load_networks a names s =
     and_then (case (wants names ''actor'', read_module a ''actor'') of
                 (True, Some m) \<Rightarrow> and_then (load_module m (actor s)) (\<lambda>x. Inr (s\<lparr>actor := x\<rparr>))
               | _ \<Rightarrow> Inr s) (\<lambda>s1.
     and_then (case (wants names ''critic'', read_module a ''critic'') of
                 (True, Some m) \<Rightarrow> and_then (load_module m (critic s1)) (\<lambda>x. Inr (s1\<lparr>critic := x\<rparr>))
               | _ \<Rightarrow> Inr s1) (\<lambda>s2.
     (case (wants names ''critic_target'', read_module a ''critic_target'') of
        (True, Some m) \<Rightarrow>
           and_then (load_module m (critic_target s2)) (\<lambda>x. Inr (s2\<lparr>critic_target := x\<rparr>))
      | _ \<Rightarrow> Inr s2)))"

definition load_optimizers ::
  "'opt archive \<Rightarrow> string set \<Rightarrow> ('w, 'opt) sac \<Rightarrow> error + ('w, 'opt) sac" where
  "load_optimizers a names s =
     and_then (case (wants names ''actor_optimizer'', read_optimizer a ''actor_optimizer'') of
                 (True, Some opt) \<Rightarrow>
                   and_then (load_optimizer opt (actor_optimizer s)) (\<lambda>x. Inr (s\<lparr>actor_optimizer := x\<rparr>))
               | _ \<Rightarrow> Inr s) (\<lambda>s1.
     and_then (case (wants names ''critic_optimizer'', read_optimizer a ''critic_optimizer'') of
                 (True, Some opt) \<Rightarrow>
                   and_then (load_optimizer opt (critic_optimizer s1))
                     (\<lambda>x. Inr (s1\<lparr>critic_optimizer := x\<rparr>))
               | _ \<Rightarrow> Inr s1) (\<lambda>s2.
     (case (wants names ''ent_coef_optimizer'' \<and> ent_coef_optimizer s2 \<noteq> None,
            read_optimizer a ''ent_coef_optimizer'') of
        (True, Some opt) \<Rightarrow> Inr (s2\<lparr>ent_coef_optimizer := Some opt\<rparr>)
      | _ \<Rightarrow> Inr s2)))"

definition load_hparams :: "'opt archive \<Rightarrow> ('w, 'opt) sac \<Rightarrow> ('w, 'opt) sac" where
  "load_hparams a s =
    s\<lparr>learning_starts :=
        (case read_tensor a ''learning_starts'' of Some v \<Rightarrow> item_Int v | None \<Rightarrow> learning_starts s),
      batch_size :=
        (case read_tensor a ''batch_size'' of Some v \<Rightarrow> item_Int v | None \<Rightarrow> batch_size s),
      lr := (case read_tensor a ''lr'' of Some v \<Rightarrow> item_double v | None \<Rightarrow> lr s),
      tau := (case read_tensor a ''tau'' of Some v \<Rightarrow> item_double v | None \<Rightarrow> tau s),
      gamma := (case read_tensor a ''gamma'' of Some v \<Rightarrow> item_double v | None \<Rightarrow> gamma s),
      ent_coef :=
        (case read_tensor a ''ent_coef'' of Some v \<Rightarrow> item_double v | None \<Rightarrow> ent_coef s),
      target_entropy :=
        (case read_tensor a ''target_entropy'' of Some v \<Rightarrow> item_double v
         | None \<Rightarrow> target_entropy s),
      auto_ent_coef :=
        (case read_tensor a ''auto_ent_coef'' of Some v \<Rightarrow> item_bool v | None \<Rightarrow> auto_ent_coef s),
      train_freq :=
        (case read_tensor a ''train_freq'' of Some v \<Rightarrow> item_Int v | None \<Rightarrow> train_freq s),
      gradient_steps :=
        (case read_tensor a ''gradient_steps'' of Some v \<Rightarrow> item_Int v
         | None \<Rightarrow> gradient_steps s),
      target_update_interval :=
        (case read_tensor a ''target_update_interval'' of Some v \<Rightarrow> item_Int v
         | None \<Rightarrow> target_update_interval s),
      log_ent_coef :=
        (case read_tensor a ''log_ent_coef'' of Some v \<Rightarrow> Some (item_double v)
         | None \<Rightarrow> log_ent_coef s),
      ent_coef_tensor :=
        (case read_tensor a ''ent_coef_tensor'' of Some v \<Rightarrow> Some (item_double v)
         | None \<Rightarrow> ent_coef_tensor s)\<rparr>"

definition LoadArchive ::
  "'opt archive \<Rightarrow> string set \<Rightarrow> ('w, 'opt) sac \<Rightarrow> error + ('w, 'opt) sac" where
  "LoadArchive a names s =
     and_then (load_networks a names s) (\<lambda>s1.
     and_then (load_optimizers a names s1) (\<lambda>s2.
       Inr (if wants names ''hparams'' then load_hparams a s2 else s2)))"

subsection \<open>Learn\<close>

definition Proceed :: "('w, 'opt) sac \<Rightarrow> bool" where
  "Proceed s = (time_steps s < max_time_steps s)"

definition Monitor :: "('w, 'opt) sac \<Rightarrow> ('w, 'opt) sac" where
  "Monitor s =
    (if monitor_interval s \<le> 0 \<or> c_rem (num_iters s) (monitor_interval s) \<noteq> 0 then s
     else (let s1 = s\<lparr>outputs := outputs s @ [Printed (time_steps s) (log_items s)]\<rparr>
           in if output_path s1 \<noteq> []
              then s1\<lparr>outputs := outputs s1 @ [LogRow (time_steps s1) (log_items s1)]\<rparr>
              else s1))"

definition Checkpoint :: "('w, 'opt) sac \<Rightarrow> error + ('w, 'opt) sac" where
  "Checkpoint s =
    (if checkpoint_interval s \<le> 0 \<or> c_rem (num_iters s) (checkpoint_interval s) \<noteq> 0 then Inr s
     else if output_path s \<noteq> []
     then and_then (SaveArchive s {''all''} Map.empty)
            (\<lambda>a. Inr (s\<lparr>outputs := outputs s @ [Saved (time_steps s) a]\<rparr>))
     else Inr s)"

definition Update :: "('w, 'opt) sac \<Rightarrow> ('w, 'opt) sac" where
  "Update s = s\<lparr>num_iters := num_iters s + 1\<rparr>"

definition Learn_init :: "int \<Rightarrow> int \<Rightarrow> int \<Rightarrow> ('w, 'opt) sac \<Rightarrow> ('w, 'opt) sac" where
  "Learn_init max_steps monitor checkpoint s =
     s\<lparr>time_steps := 0, max_time_steps := max_steps, monitor_interval := monitor,
       checkpoint_interval := checkpoint\<rparr>"

definition Learn_body :: "('w, 'opt) collab \<Rightarrow> ('w, 'opt) sac \<Rightarrow> error + ('w, 'opt) sac" where
  "Learn_body ext s =
     and_then (CollectRollouts ext s) (\<lambda>s1.
     and_then (Train ext s1) (\<lambda>s2.
     and_then (Checkpoint (Monitor s2)) (\<lambda>s3. Inr (Update s3))))"

text \<open>The loop \<^verbatim>\<open>while (Proceed()) { ... }\<close> need not end (\<^verbatim>\<open>train_freq_\<close> or
  \<^verbatim>\<open>NumEnvs()\<close> may be zero): not returning is \<open>None\<close>.\<close>

partial_function (option) Learn_loop ::
  "('w, 'opt) collab \<Rightarrow> ('w, 'opt) sac \<Rightarrow> (error + ('w, 'opt) sac) option" where
  "Learn_loop ext s =
     (if Proceed s
      then (case Learn_body ext s of Inl e \<Rightarrow> Some (Inl e) | Inr s' \<Rightarrow> Learn_loop ext s')
      else Some (Inr s))"

definition Learn ::
  "('w, 'opt) collab \<Rightarrow> int \<Rightarrow> int \<Rightarrow> int \<Rightarrow> ('w, 'opt) sac \<Rightarrow> (error + ('w, 'opt) sac) option" where
  "Learn ext max_steps monitor checkpoint s = Learn_loop ext (Learn_init max_steps monitor checkpoint s)"

text \<open>\<open>Learn_run ext n s s'\<close>: the loop entered in \<open>s\<close> has completed \<open>n\<close> iterations and is
  at its head in \<open>s'\<close>.\<close>

inductive Learn_run ::
  "('w, 'opt) collab \<Rightarrow> nat \<Rightarrow> ('w, 'opt) sac \<Rightarrow> ('w, 'opt) sac \<Rightarrow> bool" where
  run_0: "Learn_run ext 0 s s"
| run_Suc: "Proceed s \<Longrightarrow> Learn_body ext s = Inr s1 \<Longrightarrow> Learn_run ext n s1 s'
              \<Longrightarrow> Learn_run ext (Suc n) s s'"

section \<open>A stub environment with stub networks\<close>

text \<open>One environment; observations, actions, rewards and termination flags of size
  one, the reward \<open>r\<close> and the flag \<open>d\<close> constant; a two-member critic ensemble; an
  optimizer that subtracts the gradient; constant gradients.\<close>

definition stub_batch :: "real \<Rightarrow> real \<Rightarrow> int \<Rightarrow> transition" where
  "stub_batch r d n =
    \<lparr>observation = replicate (nat n) (Fin 0), action = replicate (nat n) (Fin 0),
     next_observation = replicate (nat n) (Fin 0), reward = replicate (nat n) (Fin r),
     is_done = replicate (nat n) (Fin d)\<rparr>"

text \<open>The gradient as the stub optimizer reads it.\<close>

fun finite_part :: "fp \<Rightarrow> real" where
  "finite_part (Fin a) = a"
| "finite_part PosInf = 0"
| "finite_part NegInf = 0"
| "finite_part NaN = 0"

definition stub :: "real \<Rightarrow> real \<Rightarrow> (unit, unit) collab" where
  "stub r d =
    \<lparr>NumEnvs = 1,
     MakeReplayBuffer = \<lparr>capacity = 100, action_sizes = [1], storage = []\<rparr>,
     MakeActor = (\<lambda>w. (\<lparr>parameters = [0], buffers = [], training = True\<rparr>, w)),
     MakeCritic = (\<lambda>w. (\<lparr>parameters = [0, 0], buffers = [0], training = True\<rparr>, w)),
     ResetCritic = (\<lambda>m w. (m, w)),
     SampleAction = (\<lambda>w. ([Fin 0], w)),
     ResetEnv = (\<lambda>w. ([Fin 0], w)),
     Step = (\<lambda>a w. (([Fin 0], [Fin r], [Fin d]), w)),
     PredictAction = (\<lambda>m obs w. ([Fin 0], w)),
     PredictActionLogProb = (\<lambda>m obs w. ((map (\<lambda>x. Fin 0) obs, map (\<lambda>x. Fin 0) obs), m, w)),
     Forward = (\<lambda>m obs act. ([map (\<lambda>x. Fin (sum_list (parameters m))) obs,
                                  map (\<lambda>x. Fin (sum_list (parameters m) + 1)) obs], m)),
     Sample = (\<lambda>b n w. (stub_batch r d n, w)),
     Adam = (\<lambda>p l. ()),
     OptimizerStep = (\<lambda>opt p g. (opt, map2 (\<lambda>x y. x - finite_part y) p g)),
     critic_loss_grad = (\<lambda>m b tq. [Fin 1, Fin 1]),
     actor_loss_grad = (\<lambda>a c obs ec w. [Fin 1])\<rparr>"

text \<open>A stub whose critic networks answer \<open>+\<infinity>\<close>.\<close>

definition diverged :: "(unit, unit) collab" where
  "diverged = (stub 1 1)\<lparr>Forward := (\<lambda>m obs act. ([map (\<lambda>x. PosInf) obs], m))\<rparr>"

text \<open>The object of the end-to-end scenario as constructed, and a state ready for a
  gradient step: the object after \<open>Reset\<close>, in auto or in fixed entropy mode.\<close>

definition scenario :: "bool \<Rightarrow> (unit, unit) sac" where
  "scenario auto = SAC_new 10 4 (3 / 10000) 1 (99 / 100) 1 auto None 1 1 1 [] 0 False ()"

definition ready :: "bool \<Rightarrow> (unit, unit) sac" where
  "ready auto = (case Reset (stub 1 1) (scenario auto) of Inr s \<Rightarrow> s | Inl e \<Rightarrow> scenario auto)"

lemmas stub_simps = stub_def stub_batch_def scenario_def SAC_new_def Reset_def RL_Reset_def
  RegisterLogItems_def make_networks_def init_ent_coef_def MakeActorOptimizer_def
  MakeCriticOptimizer_def MakeEntropyOptimizer_def CopyStateDict_def Let_def

lemmas step_simps = gradient_step_def entropy_coefficient_def entropy_step_def step_scalar_def
  target_q_values_def target_formula_def update_critic_def critic_loss_value_def update_actor_def
  update_target_def c_rem_def PolyakUpdate_def empty_lists_def mean_def scale_def mse_loss_def
  lift1_def lift2_def tracked_def untracked_def detach_def NoGradGuard_def

lemma ready_True:
  "ready True = \<lparr>num_iters = 0, time_steps = 0, max_time_steps = 0, num_updates = 0,
     monitor_interval = 0, checkpoint_interval = 0, output_path = [],
     log_items = [(''ent_coef'', None), (''actor_loss'', None), (''critic_loss'', None),
                  (''q_value'', None), (''reward'', None), (''ent_coef_loss'', None)],
     world = (), outputs = [],
     learning_starts = 10, batch_size = 4, lr = 3 / 10000, tau = 1,
     gamma = 99 / 100, ent_coef = 1, target_entropy = - 1, auto_ent_coef = True,
     auto_target_entropy = True, train_freq = 1, gradient_steps = 1,
     target_update_interval = 1,
     replay_buffer = Some \<lparr>capacity = 100, action_sizes = [1], storage = []\<rparr>,
     actor = Some \<lparr>parameters = [0], buffers = [], training = True\<rparr>,
     critic = Some \<lparr>parameters = [0, 0], buffers = [0], training = True\<rparr>,
     critic_target = Some \<lparr>parameters = [0, 0], buffers = [0], training = False\<rparr>,
     actor_optimizer = Some (), critic_optimizer = Some (), ent_coef_optimizer = Some (),
     log_ent_coef = Some 0, ent_coef_tensor = None, current_observation = [Fin 0], history = []\<rparr>"
  by (simp add: ready_def stub_simps)

lemma ready_False:
  "ready False = \<lparr>num_iters = 0, time_steps = 0, max_time_steps = 0, num_updates = 0,
     monitor_interval = 0, checkpoint_interval = 0, output_path = [],
     log_items = [(''ent_coef'', None), (''actor_loss'', None), (''critic_loss'', None),
                  (''q_value'', None), (''reward'', None)],
     world = (), outputs = [],
     learning_starts = 10, batch_size = 4, lr = 3 / 10000, tau = 1,
     gamma = 99 / 100, ent_coef = 1, target_entropy = 0, auto_ent_coef = False,
     auto_target_entropy = True, train_freq = 1, gradient_steps = 1,
     target_update_interval = 1,
     replay_buffer = Some \<lparr>capacity = 100, action_sizes = [1], storage = []\<rparr>,
     actor = Some \<lparr>parameters = [0], buffers = [], training = True\<rparr>,
     critic = Some \<lparr>parameters = [0, 0], buffers = [0], training = True\<rparr>,
     critic_target = Some \<lparr>parameters = [0, 0], buffers = [0], training = False\<rparr>,
     actor_optimizer = Some (), critic_optimizer = Some (), ent_coef_optimizer = None,
     log_ent_coef = None, ent_coef_tensor = Some 1, current_observation = [Fin 0], history = []\<rparr>"
  by (simp add: ready_def stub_simps float32_simps)

lemma Reset_scenario: "Reset (stub r d) (scenario auto) = Inr (ready auto)"
  by (simp add: ready_def stub_simps float32_simps)

lemmas rollout_simps = CollectRollouts_def warmup_step_def policy_step_def store_transition_def
  Add_def

lemmas learn_simps = Learn_body_def Learn_init_def Monitor_def Checkpoint_def Update_def
  Proceed_def

lemmas train_simps = Train_def record_log_items_def set_item_def stack_mean_def
  stack_mean_tensors_def

section \<open>The target Q-values\<close>

text \<open>
  C1 as stated fails. The batch of the step below has reward 1 and termination flag 1 in
  each of its four transitions, and the critic target answers \<open>+\<infinity>\<close>: the product of
  the coefficient \<open>(1 - 1) * gamma = 0\<close> and the infinite bootstrap term is NaN, and so
  is every target Q-value, not the reward.
\<close>

theorem target_not_reward_for_infinite_next_q:
  "map_sum id (data \<circ> target_q_values_of \<circ> snd \<circ> snd)
      (gradient_step diverged 0 (ready True) empty_lists) = Inr [NaN, NaN, NaN, NaN] \<and>
   map_sum id (reward \<circ> batch_of \<circ> snd \<circ> snd)
      (gradient_step diverged 0 (ready True) empty_lists) = Inr [Fin 1, Fin 1, Fin 1, Fin 1] \<and>
   map_sum id (is_done \<circ> batch_of \<circ> snd \<circ> snd)
      (gradient_step diverged 0 (ready True) empty_lists) = Inr [Fin 1, Fin 1, Fin 1, Fin 1]"
  by (simp add: diverged_def ready_True stub_def stub_batch_def step_simps eval_nat_numeral)

text \<open>
  C1, amended. In a gradient step of \<open>Train\<close> the target Q-values carry no autograd leaves
  (they are computed with gradients disabled). With \<open>next_actions\<close>, \<open>next_log_prob\<close>
  sampled from the actor as the step finds it on the batch's \<open>next_observation\<close>, and
  \<open>next_q\<close> the entrywise minimum of the outputs of the critic-target ensemble at
  \<open>(next_observation, next_actions)\<close> (NaN where an output is NaN), every entry of the
  target is \<open>reward + (1 - done) * gamma * (next_q - ent_coef * next_log_prob)\<close> in
  floating-point arithmetic. Where \<open>done = 1\<close> and the bootstrap term
  \<open>next_q - ent_coef * next_log_prob\<close> is finite, the entry is the reward.
\<close>

theorem target_q_values_of_gradient_step:
  assumes "gradient_step ext step s ls = Inr (s', ls', v)"
    and "replay_buffer s = Some rb" and "actor s = Some a0" and "critic_target s = Some t"
    and "Sample ext rb (batch_size s) (world s) = (batch, w0)"
    and "PredictActionLogProb ext a0 (observation batch) w0 = ((acts, lp), a1, w1)"
    and "PredictActionLogProb ext a1 (next_observation batch) w1 = ((next_actions, next_log_prob), a2, w2)"
    and "Forward ext t (next_observation batch) next_actions = (qs, t')"
  shows "leaves (target_q_values_of v) = {} \<and>
    (\<exists>next_q. stack_min qs = Inr next_q \<and>
       (\<forall>i < length next_q.
          if \<exists>q \<in> set qs. q ! i = NaN then next_q ! i = NaN
          else next_q ! i \<in> (\<lambda>q. q ! i) ` set qs \<and> (\<forall>q \<in> set qs. fle (next_q ! i) (q ! i))) \<and>
       (\<forall>i < length (data (target_q_values_of v)).
          data (target_q_values_of v) ! i =
            reward batch ! i +
            (1 - is_done batch ! i) * Fin (gamma s) *
              (next_q ! i - data (ent_coef_of v) * next_log_prob ! i) \<and>
          (is_done batch ! i = 1 \<and>
           (\<exists>x. next_q ! i - data (ent_coef_of v) * next_log_prob ! i = Fin x)
             \<longrightarrow> data (target_q_values_of v) ! i = reward batch ! i)))"
proof -
  from assms(1) obtain rb' a batch' w0' acts' lp' a' w1' ec ec_loss tq s3 where
    b: "replay_buffer s = Some rb'" "actor s = Some a"
       "Sample ext rb' (batch_size s) (world s) = (batch', w0')"
       "PredictActionLogProb ext a (observation batch') w0' = ((acts', lp'), a', w1')" and
    t: "target_q_values ext batch' ec (entropy_step ext lp' (s\<lparr>actor := Some a', world := w1'\<rparr>))
          = Inr (tq, s3)" and
    v: "target_q_values_of v = tq" "ent_coef_of v = ec"
    by (rule gradient_step_blocks) simp
  from b assms(2-6) have eq: "batch' = batch" "w0' = w0" "lp' = lp" "a' = a1" "w1' = w1"
    by simp_all
  define s2 where "s2 = entropy_step ext lp (s\<lparr>actor := Some a1, world := w1\<rparr>)"
  have s2: "actor s2 = Some a1" "critic_target s2 = Some t" "world s2 = w1" "gamma s2 = gamma s"
    using assms(4) by (simp_all add: s2_def entropy_step_def Let_def split: option.splits prod.splits)
  from t have t': "target_q_values ext batch ec s2 = Inr (tq, s3)"
    by (simp add: eq s2_def)
  have p: "PredictActionLogProb ext a1 (next_observation batch) (world s2)
             = ((next_actions, next_log_prob), a2, w2)"
    using assms(7) s2(3) by simp
  from target_q_values_result [OF t' s2(1) s2(2) p assms(8)]
  obtain next_q where l: "leaves tq = {}" and m: "stack_min qs = Inr next_q" and
    d: "data tq = target_tensor (gamma s) (reward batch) (is_done batch) (data ec) next_q next_log_prob"
    by (auto simp: s2(4))
  have e: "data tq ! i = reward batch ! i +
          (1 - is_done batch ! i) * Fin (gamma s) * (next_q ! i - data ec * next_log_prob ! i)"
    if "i < length (data tq)" for i
    using that unfolding d by (rule target_entry)
  have f: "data tq ! i = reward batch ! i"
    if "i < length (data tq)" and "is_done batch ! i = 1"
      and "next_q ! i - data ec * next_log_prob ! i = Fin x" for i x
  proof -
    have "reward batch ! i +
          (1 - is_done batch ! i) * Fin (gamma s) * (next_q ! i - data ec * next_log_prob ! i)
          = reward batch ! i"
      by (rule target_entry_done [where x = x]) (use that(2,3) in simp_all)
    with e [OF that(1)] show ?thesis by (simp only:)
  qed
  have mn: "\<forall>i < length next_q.
          if \<exists>q \<in> set qs. q ! i = NaN then next_q ! i = NaN
          else next_q ! i \<in> (\<lambda>q. q ! i) ` set qs \<and> (\<forall>q \<in> set qs. fle (next_q ! i) (q ! i))"
    using stack_min_entry [OF m] by blast
  have en: "\<forall>i < length (data tq).
          data tq ! i =
            reward batch ! i +
            (1 - is_done batch ! i) * Fin (gamma s) * (next_q ! i - data ec * next_log_prob ! i) \<and>
          (is_done batch ! i = 1 \<and> (\<exists>x. next_q ! i - data ec * next_log_prob ! i = Fin x)
             \<longrightarrow> data tq ! i = reward batch ! i)"
    using e f by blast
  from l m mn en show ?thesis
    unfolding v by blast
qed

theorem target_q_values_of_gradient_step_witness:
  "\<exists>s' ls' v. gradient_step (stub 1 1) 0 (ready True) empty_lists = Inr (s', ls', v) \<and>
      leaves (target_q_values_of v) = {} \<and> length (data (target_q_values_of v)) = 4 \<and>
      (\<forall>i<4. is_done (stub_batch 1 1 4) ! i = 1 \<and>
              data (target_q_values_of v) ! i = reward (stub_batch 1 1 4) ! i)"
proof -
  let ?a = "\<lparr>parameters = [0], buffers = [], training = True\<rparr>"
  let ?t = "\<lparr>parameters = [0, 0], buffers = [0], training = False\<rparr>"
  let ?z = "[Fin 0, Fin 0, Fin 0, Fin 0]"
  obtain s' ls' v where g: "gradient_step (stub 1 1) 0 (ready True) empty_lists = Inr (s', ls', v)"
    and len: "length (data (target_q_values_of v)) = 4"
    and ec: "data (ent_coef_of v) = Fin 1"
    by (simp add: ready_True stub_def stub_batch_def step_simps eval_nat_numeral)
  have h2: "replay_buffer (ready True) = Some \<lparr>capacity = 100, action_sizes = [1], storage = []\<rparr>"
    and h3: "actor (ready True) = Some ?a" and h4: "critic_target (ready True) = Some ?t"
    by (simp_all add: ready_True)
  have h5: "Sample (stub 1 1) \<lparr>capacity = 100, action_sizes = [1], storage = []\<rparr>
              (batch_size (ready True)) (world (ready True)) = (stub_batch 1 1 4, ())"
    by (simp add: ready_True stub_def)
  have h6: "PredictActionLogProb (stub 1 1) ?a (observation (stub_batch 1 1 4)) () = ((?z, ?z), ?a, ())"
    and h7: "PredictActionLogProb (stub 1 1) ?a (next_observation (stub_batch 1 1 4)) ()
               = ((?z, ?z), ?a, ())"
    and h8: "Forward (stub 1 1) ?t (next_observation (stub_batch 1 1 4)) ?z
               = ([?z, [Fin 1, Fin 1, Fin 1, Fin 1]], ?t)"
    by (simp_all add: stub_def stub_batch_def eval_nat_numeral)
  have d: "is_done (stub_batch 1 1 4) ! i = 1" if "i < 4" for i
    using that by (simp add: stub_batch_def)
  from target_q_values_of_gradient_step [OF g h2 h3 h4 h5 h6 h7 h8]
  obtain next_q where m: "stack_min [?z, [Fin 1, Fin 1, Fin 1, Fin 1]] = Inr next_q"
    and lv: "leaves (target_q_values_of v) = {}"
    and r: "\<forall>i < length (data (target_q_values_of v)).
          is_done (stub_batch 1 1 4) ! i = 1 \<and>
           (\<exists>x. next_q ! i - data (ent_coef_of v) * [Fin 0, Fin 0, Fin 0, Fin 0] ! i = Fin x)
             \<longrightarrow> data (target_q_values_of v) ! i = reward (stub_batch 1 1 4) ! i"
    by blast
  from m have nq: "next_q = ?z"
    by (simp add: fmin_def)
  have fin: "\<exists>x. next_q ! i - data (ent_coef_of v) * [Fin 0, Fin 0, Fin 0, Fin 0] ! i = Fin x"
    if "i < 4" for i
  proof -
    from that have "i = 0 \<or> i = 1 \<or> i = 2 \<or> i = 3" by auto
    then show ?thesis by (auto simp: nq ec)
  qed
  from r d fin len have "\<forall>i<4. data (target_q_values_of v) ! i = reward (stub_batch 1 1 4) ! i"
    by simp
  with g len d lv show ?thesis by blast
qed

section \<open>Reset\<close>

lemma make_networks_critic_target:
  "\<exists>a c t. actor (make_networks ext s) = Some a \<and> critic (make_networks ext s) = Some c \<and>
     critic_target (make_networks ext s) = Some t \<and>
     replay_buffer (make_networks ext s) = Some (MakeReplayBuffer ext) \<and>
     parameters t = parameters c \<and> buffers t = buffers c \<and> \<not> training t"
  by (simp add: make_networks_def CopyStateDict_def Let_def split: prod.splits)

lemma make_networks_kept:
  "log_items (make_networks ext s) = log_items s \<and> outputs (make_networks ext s) = outputs s \<and>
   target_entropy (make_networks ext s) = target_entropy s \<and>
   auto_ent_coef (make_networks ext s) = auto_ent_coef s \<and>
   auto_target_entropy (make_networks ext s) = auto_target_entropy s"
  by (simp add: make_networks_def Let_def split: prod.splits)

text \<open>The product of the action sizes, negated, as the loop of lines 75 to 78 computes
  it.\<close>

lemma foldl_action_sizes:
  "foldl (\<lambda>t size. t * real_of_int size) x sizes = x * real_of_int (prod_list sizes)"
  by (induction sizes arbitrary: x) simp_all

lemma init_ent_coef_result:
  assumes "replay_buffer s = Some b"
  shows "\<exists>s'. init_ent_coef ext s = Inr s' \<and>
     actor s' = actor s \<and> critic s' = critic s \<and> critic_target s' = critic_target s \<and>
     replay_buffer s' = replay_buffer s \<and> log_items s' = log_items s \<and> outputs s' = outputs s \<and>
     target_entropy s' =
       (if auto_ent_coef s \<and> auto_target_entropy s
        then - real_of_int (prod_list (action_sizes b)) else target_entropy s)"
  using assms by (simp add: init_ent_coef_def Let_def foldl_action_sizes)

lemma Reset_total:
  "\<exists>ao co s2 obs w. Reset ext s = Inr (s2\<lparr>current_observation := obs, world := w\<rparr>) \<and>
     init_ent_coef ext ((make_networks ext (RL_Reset s))
            \<lparr>actor_optimizer := Some ao, critic_optimizer := Some co\<rparr>) = Inr s2"
proof -
  from make_networks_critic_target [of ext "RL_Reset s"] obtain a c where
    n: "actor (make_networks ext (RL_Reset s)) = Some a"
       "critic (make_networks ext (RL_Reset s)) = Some c"
       "replay_buffer (make_networks ext (RL_Reset s)) = Some (MakeReplayBuffer ext)"
    by blast
  let ?s1 = "(make_networks ext (RL_Reset s))\<lparr>actor_optimizer :=
                 Some (Adam ext (parameters a) (lr (make_networks ext (RL_Reset s)))),
               critic_optimizer :=
                 Some (Adam ext (parameters c) (lr (make_networks ext (RL_Reset s))))\<rparr>"
  from n(3) have "replay_buffer ?s1 = Some (MakeReplayBuffer ext)" by simp
  from init_ent_coef_result [OF this, of ext] obtain s2 where
    i: "init_ent_coef ext ?s1 = Inr s2" by blast
  obtain obs w where r: "ResetEnv ext (world s2) = (obs, w)"
    by (cases "ResetEnv ext (world s2)")
  have "Reset ext s = Inr (s2\<lparr>current_observation := obs, world := w\<rparr>)"
    using n i r by (simp add: Reset_def MakeActorOptimizer_def MakeCriticOptimizer_def Let_def)
  with i show ?thesis by blast
qed

text \<open>What \<open>Reset\<close> returns, in the members the claims are about.\<close>

lemma Reset_result:
  assumes "Reset ext s = Inr s'"
  shows "(\<exists>c t. critic s' = Some c \<and> critic_target s' = Some t \<and>
            parameters t = parameters c \<and> buffers t = buffers c \<and> \<not> training t) \<and>
         log_items s' = log_items (RL_Reset s) \<and> outputs s' = outputs (RL_Reset s) \<and>
         target_entropy s' =
           (if auto_ent_coef s \<and> auto_target_entropy s
            then - real_of_int (prod_list (action_sizes (MakeReplayBuffer ext)))
            else target_entropy s)"
proof -
  from Reset_total [of ext s] assms obtain ao co s2 obs w where
    s': "s' = s2\<lparr>current_observation := obs, world := w\<rparr>" and
    i: "init_ent_coef ext ((make_networks ext (RL_Reset s))
            \<lparr>actor_optimizer := Some ao, critic_optimizer := Some co\<rparr>) = Inr s2"
    by auto
  let ?s1 = "(make_networks ext (RL_Reset s))\<lparr>actor_optimizer := Some ao, critic_optimizer := Some co\<rparr>"
  from make_networks_critic_target [of ext "RL_Reset s"] obtain c t where
    n: "critic ?s1 = Some c" "critic_target ?s1 = Some t"
       "replay_buffer ?s1 = Some (MakeReplayBuffer ext)"
       "parameters t = parameters c" "buffers t = buffers c" "\<not> training t"
    by auto
  have k: "target_entropy ?s1 = target_entropy s" "auto_ent_coef ?s1 = auto_ent_coef s"
    "auto_target_entropy ?s1 = auto_target_entropy s"
    "log_items ?s1 = log_items (RL_Reset s)" "outputs ?s1 = outputs (RL_Reset s)"
    by (simp_all add: make_networks_kept) (simp_all add: RL_Reset_def RegisterLogItems_def Let_def)
  from init_ent_coef_result [OF n(3), of ext] i n k show ?thesis
    by (auto simp: s')
qed


section \<open>Synchronization of the critic target\<close>






section \<open>The order of the updates in a gradient step\<close>

lemma entropy_step_history:
  "history (entropy_step ext lp s) = history s @ (if auto_mode s then [EntCoefStep] else [])"
  by (auto simp: entropy_step_def auto_mode_def Let_def split: option.splits prod.splits)

lemma target_q_values_history:
  "target_q_values ext b ec s = Inr (tq, s') \<Longrightarrow> history s' = history s @ [TargetQ]"
  by (auto simp: target_q_values_def and_then_def deref_def Let_def
           split: option.splits prod.splits sum.splits)

lemma update_critic_history:
  "update_critic ext b tq s = Inr (l, m, s') \<Longrightarrow> history s' = history s @ [CriticStep]"
  by (auto simp: update_critic_def and_then_def deref_def Let_def
           split: option.splits prod.splits sum.splits)

lemma update_actor_history:
  "update_actor ext b ap lp ec w0 s = Inr (l, s') \<Longrightarrow> history s' = history s @ [ActorStep]"
  by (auto simp: update_actor_def and_then_def deref_def Let_def
           split: option.splits prod.splits sum.splits)

lemma update_target_history:
  "update_target step s = Inr s' \<Longrightarrow>
     target_update_interval s \<noteq> 0 \<and>
     history s' = history s @ (if c_rem step (target_update_interval s) = 0 then [TargetSync] else [])"
  by (auto simp: update_target_def and_then_def deref_def
           split: option.splits if_splits)

lemma untouched_interval:
  "untouched s' = untouched s \<Longrightarrow> target_update_interval s' = target_update_interval s"
  by (simp add: untouched_def)

lemma gradient_step_history:
  assumes "gradient_step ext step s ls = Inr (s', ls', v)"
  shows "target_update_interval s \<noteq> 0 \<and>
         history s' = history s @ (if auto_mode s then [EntCoefStep] else [])
            @ [TargetQ, CriticStep, ActorStep]
            @ (if c_rem step (target_update_interval s) = 0 then [TargetSync] else [])"
proof -
  from assms obtain lp a' w1 b ec tq s3 c_loss mq s4 ap lpv w0 a_loss s5 where
    t: "target_q_values ext b ec (entropy_step ext lp (s\<lparr>actor := Some a', world := w1\<rparr>)) = Inr (tq, s3)" and
    c: "update_critic ext b tq s3 = Inr (c_loss, mq, s4)" and
    ac: "update_actor ext b ap lpv ec w0 s4 = Inr (a_loss, s5)" and
    u: "update_target step s5 = Inr s'"
    by (rule gradient_step_blocks)
  have i: "target_update_interval s5 = target_update_interval s"
    using gradient_step_untouched [OF assms] update_target_untouched [OF u]
    by (simp add: untouched_def)
  have "history (entropy_step ext lp (s\<lparr>actor := Some a', world := w1\<rparr>))
          = history s @ (if auto_mode s then [EntCoefStep] else [])"
    by (simp add: entropy_step_history) (simp add: auto_mode_def)
  with target_q_values_history [OF t] update_critic_history [OF c] update_actor_history [OF ac]
    update_target_history [OF u] i
  show ?thesis by simp
qed

subsection \<open>The leaves of the losses\<close>

lemma entropy_coefficient_leaves:
  assumes "entropy_coefficient s lp = Inr (ec, ec_loss)"
  shows "leaves ec = {} \<and>
         (if auto_mode s
          then (\<exists>l. log_ent_coef s = Some l \<and> data ec = Fin (exp l) \<and>
                  ec_loss = Some \<lparr>data = - mean (scale (Fin l)
                                             (map (\<lambda>x. x + Fin (target_entropy s)) (data lp))),
                                  leaves = {LogEntCoef}\<rparr>)
          else ec_loss = None \<and> (\<exists>e. ent_coef_tensor s = Some e \<and> data ec = Fin e))"
  using assms
  by (auto simp: entropy_coefficient_def auto_mode_def lift1_def lift2_def detach_def tracked_def
        untracked_def Let_def split: option.splits)

lemma critic_loss_fold_leaves:
  "leaves (foldl (\<lambda>l q. lift2 (+) l (lift2 mse_loss (tracked {CriticParams} q) tq)) acc qs)
     = leaves acc \<union> (if qs = [] then {} else {CriticParams} \<union> leaves tq)"
  by (induction qs arbitrary: acc) (auto simp: lift2_def tracked_def)

lemma critic_loss_value_leaves:
  "leaves (critic_loss_value qs tq) = (if qs = [] then {} else {CriticParams} \<union> leaves tq)"
  by (simp add: critic_loss_value_def lift1_def critic_loss_fold_leaves untracked_def)

lemma stack_min_nonempty: "stack_min qs = Inr m \<Longrightarrow> qs \<noteq> []"
  by auto

lemma update_critic_leaves:
  assumes "update_critic ext b tq s = Inr (l, m, s')"
  shows "leaves l = {CriticParams} \<union> leaves tq"
proof -
  from assms obtain qs m' where "stack_min qs = Inr m'" and "l = critic_loss_value qs tq"
    by (auto simp: update_critic_def and_then_def deref_def Let_def
             split: option.splits prod.splits sum.splits)
  then show ?thesis
    by (auto simp: critic_loss_value_leaves dest: stack_min_nonempty)
qed

lemma update_actor_leaves:
  assumes "update_actor ext b ap lp ec w0 s = Inr (l, s')"
  shows "leaves l = leaves ec \<union> leaves lp \<union> {CriticParams} \<union> leaves ap"
proof -
  from assms obtain m where
    "l = lift1 mean (lift2 (map2 (-)) (lift2 scale ec lp) (tracked ({CriticParams} \<union> leaves ap) m))"
    by (auto simp: update_actor_def and_then_def deref_def Let_def
             split: option.splits prod.splits sum.splits)
  then show ?thesis
    by (auto simp: lift1_def lift2_def tracked_def)
qed

lemma target_q_values_leaves:
  "target_q_values ext b ec s = Inr (tq, s') \<Longrightarrow> leaves tq = {}"
  by (auto simp: target_q_values_def and_then_def deref_def NoGradGuard_def Let_def
           split: option.splits prod.splits sum.splits)

subsection \<open>What the entropy step changes, and what the later blocks keep\<close>

lemma entropy_step_result:
  assumes "ent_coef_optimizer s = Some opt" and "log_ent_coef s = Some l"
    and "step_scalar ext opt l (- mean (map (\<lambda>x. x + Fin (target_entropy s)) lp)) = (opt', l')"
  shows "entropy_step ext lp s =
           s\<lparr>ent_coef_optimizer := Some opt', log_ent_coef := Some l',
             history := history s @ [EntCoefStep]\<rparr>"
  using assms by (simp add: entropy_step_def)

lemma entropy_step_fixed:
  "ent_coef_optimizer s = None \<or> log_ent_coef s = None \<Longrightarrow> entropy_step ext lp s = s"
  by (auto simp: entropy_step_def split: option.splits)

lemma target_q_values_entropy:
  "target_q_values ext b ec s = Inr (tq, s') \<Longrightarrow>
     log_ent_coef s' = log_ent_coef s \<and> ent_coef_optimizer s' = ent_coef_optimizer s"
  by (auto simp: target_q_values_def and_then_def deref_def Let_def
           split: option.splits prod.splits sum.splits)

lemma update_critic_entropy:
  "update_critic ext b tq s = Inr (l, m, s') \<Longrightarrow>
     log_ent_coef s' = log_ent_coef s \<and> ent_coef_optimizer s' = ent_coef_optimizer s"
  by (auto simp: update_critic_def and_then_def deref_def Let_def
           split: option.splits prod.splits sum.splits)

lemma update_actor_entropy:
  "update_actor ext b ap lp ec w0 s = Inr (l, s') \<Longrightarrow>
     log_ent_coef s' = log_ent_coef s \<and> ent_coef_optimizer s' = ent_coef_optimizer s"
  by (auto simp: update_actor_def and_then_def deref_def Let_def
           split: option.splits prod.splits sum.splits)

lemma update_target_entropy:
  "update_target step s = Inr s' \<Longrightarrow>
     log_ent_coef s' = log_ent_coef s \<and> ent_coef_optimizer s' = ent_coef_optimizer s"
  by (auto simp: update_target_def and_then_def deref_def
           split: option.splits if_splits)

text \<open>
  C5. In auto entropy mode a gradient step first takes the step of the
  entropy-coefficient optimizer, which replaces \<open>log_ent_coef\<close> and the state of that
  optimizer; the target Q-values are computed in the state this step leaves, then
  come the step of the critic optimizer, the step of the actor optimizer and the
  synchronization of the target, none of which touches \<open>log_ent_coef\<close> or its optimizer
  again. The coefficient the target and the actor loss use is the exponential of the
  detached \<open>log_ent_coef\<close>, taken before the step, and has no autograd leaves; the leaves
  of the critic loss and of the actor loss do not include \<open>log_ent_coef\<close>, and the only
  leaf of the entropy loss is \<open>log_ent_coef\<close>.
\<close>

theorem entropy_step_before_other_updates:
  assumes "gradient_step ext step s ls = Inr (s', ls', v)"
    and "ent_coef_optimizer s = Some opt" and "log_ent_coef s = Some l"
    and "replay_buffer s = Some rb" and "actor s = Some a0"
    and "Sample ext rb (batch_size s) (world s) = (batch, w0)"
    and "PredictActionLogProb ext a0 (observation batch) w0 = ((acts, lp), a1, w1)"
    and "step_scalar ext opt l (- mean (map (\<lambda>x. x + Fin (target_entropy s)) lp)) = (opt', l')"
  shows "(\<exists>s3 s4 s5 mq.
            target_q_values ext batch (ent_coef_of v)
              (s\<lparr>actor := Some a1, world := w1, ent_coef_optimizer := Some opt',
                 log_ent_coef := Some l', history := history s @ [EntCoefStep]\<rparr>)
              = Inr (target_q_values_of v, s3) \<and>
            update_critic ext batch (target_q_values_of v) s3 = Inr (critic_loss_of v, mq, s4) \<and>
            update_actor ext batch (tracked {ActorParams} acts) (tracked {ActorParams} lp)
              (ent_coef_of v) w0 s4 = Inr (actor_loss_of v, s5) \<and>
            update_target step s5 = Inr s') \<and>
         log_ent_coef s' = Some l' \<and> ent_coef_optimizer s' = Some opt' \<and>
         ent_coef_of v = \<lparr>data = Fin (exp l), leaves = {}\<rparr> \<and>
         ent_coef_loss_of v =
           Some \<lparr>data = - mean (scale (Fin l) (map (\<lambda>x. x + Fin (target_entropy s)) lp)),
                 leaves = {LogEntCoef}\<rparr> \<and>
         leaves (target_q_values_of v) = {} \<and>
         leaves (critic_loss_of v) = {CriticParams} \<and>
         leaves (actor_loss_of v) = {ActorParams, CriticParams} \<and>
         (\<exists>sync. history s' = history s @ [EntCoefStep, TargetQ, CriticStep, ActorStep] @ sync \<and>
                 (sync = [] \<or> sync = [TargetSync]))"
proof -
  from assms(1) obtain rb' a batch' w0' acts' lp' a' w1' ec ec_loss tq s3 c_loss mq s4 a_loss s5 where
    b: "replay_buffer s = Some rb'" "actor s = Some a"
       "Sample ext rb' (batch_size s) (world s) = (batch', w0')"
       "PredictActionLogProb ext a (observation batch') w0' = ((acts', lp'), a', w1')" and
    e': "entropy_coefficient (s\<lparr>actor := Some a', world := w1'\<rparr>) (tracked {ActorParams} lp')
          = Inr (ec, ec_loss)" and
    t': "target_q_values ext batch' ec (entropy_step ext lp' (s\<lparr>actor := Some a', world := w1'\<rparr>))
          = Inr (tq, s3)" and
    c': "update_critic ext batch' tq s3 = Inr (c_loss, mq, s4)" and
    ac': "update_actor ext batch' (tracked {ActorParams} acts') (tracked {ActorParams} lp') ec w0' s4
          = Inr (a_loss, s5)" and
    u: "update_target step s5 = Inr s'" and
    v: "v = \<lparr>batch_of = batch', ent_coef_of = ec, ent_coef_loss_of = ec_loss,
             target_q_values_of = tq, critic_loss_of = c_loss, actor_loss_of = a_loss\<rparr>"
    by (rule gradient_step_blocks)
  from b assms(4-7) have eq: "batch' = batch" "w0' = w0" "acts' = acts" "lp' = lp" "a' = a1" "w1' = w1"
    by simp_all
  let ?s1 = "s\<lparr>actor := Some a1, world := w1\<rparr>"
  let ?s2 = "s\<lparr>actor := Some a1, world := w1, ent_coef_optimizer := Some opt',
               log_ent_coef := Some l', history := history s @ [EntCoefStep]\<rparr>"
  have am: "auto_mode ?s1" "auto_mode s"
    using assms(2,3) by (simp_all add: auto_mode_def)
  have "entropy_step ext lp ?s1 = ?s2"
    using entropy_step_result [of ?s1 opt l ext lp opt' l'] assms(2,3,8) by simp
  with t' have t: "target_q_values ext batch ec ?s2 = Inr (tq, s3)"
    by (simp add: eq)
  from c' have c: "update_critic ext batch tq s3 = Inr (c_loss, mq, s4)"
    by (simp add: eq)
  from ac' have ac: "update_actor ext batch (tracked {ActorParams} acts) (tracked {ActorParams} lp)
      ec w0 s4 = Inr (a_loss, s5)"
    by (simp add: eq)
  from e' have e: "entropy_coefficient ?s1 (tracked {ActorParams} lp) = Inr (ec, ec_loss)"
    by (simp add: eq)
  from entropy_coefficient_leaves [OF e] am(1) assms(3)
  have "leaves ec = {}" "data ec = Fin (exp l)" and
    el: "ec_loss = Some \<lparr>data = - mean (scale (Fin l) (map (\<lambda>x. x + Fin (target_entropy s)) lp)),
                         leaves = {LogEntCoef}\<rparr>"
    by (auto simp: tracked_def)
  then have ec: "ec = \<lparr>data = Fin (exp l), leaves = {}\<rparr>"
    by (cases ec) simp
  have blocks: "\<exists>s3 s4 s5 mq.
            target_q_values ext batch ec ?s2 = Inr (tq, s3) \<and>
            update_critic ext batch tq s3 = Inr (c_loss, mq, s4) \<and>
            update_actor ext batch (tracked {ActorParams} acts) (tracked {ActorParams} lp)
              ec w0 s4 = Inr (a_loss, s5) \<and>
            update_target step s5 = Inr s'"
    using t c ac u by blast
  have kept: "log_ent_coef s' = Some l'" "ent_coef_optimizer s' = Some opt'"
    using target_q_values_entropy [OF t] update_critic_entropy [OF c] update_actor_entropy [OF ac]
      update_target_entropy [OF u]
    by simp_all
  have tq: "leaves tq = {}" by (rule target_q_values_leaves [OF t])
  from update_critic_leaves [OF c] tq have cl: "leaves c_loss = {CriticParams}" by simp
  from update_actor_leaves [OF ac] ec have al: "leaves a_loss = {ActorParams, CriticParams}"
    by (auto simp: tracked_def)
  from gradient_step_history [OF assms(1)] am(2)
  have h: "\<exists>sync. history s' = history s @ [EntCoefStep, TargetQ, CriticStep, ActorStep] @ sync \<and>
                 (sync = [] \<or> sync = [TargetSync])"
    by auto
  from blocks kept ec el tq cl al h show ?thesis
    unfolding v by simp
qed

theorem entropy_step_before_other_updates_witness:
  "ent_coef_optimizer (ready True) = Some () \<and> log_ent_coef (ready True) = Some 0 \<and>
   step_scalar (stub 1 1) () 0
     (- mean (map (\<lambda>x. x + Fin (target_entropy (ready True))) [Fin 0, Fin 0, Fin 0, Fin 0]))
     = ((), - 1) \<and>
   (\<exists>s' ls' v. gradient_step (stub 1 1) 0 (ready True) empty_lists = Inr (s', ls', v) \<and>
      log_ent_coef s' = Some (- 1) \<and>
      ent_coef_of v = \<lparr>data = Fin 1, leaves = {}\<rparr> \<and>
      leaves (critic_loss_of v) = {CriticParams} \<and>
      leaves (actor_loss_of v) = {ActorParams, CriticParams} \<and>
      history s' = [EntCoefStep, TargetQ, CriticStep, ActorStep, TargetSync])"
proof -
  let ?a = "\<lparr>parameters = [0], buffers = [], training = True\<rparr>"
  let ?z = "[Fin 0, Fin 0, Fin 0, Fin 0]"
  have h2: "ent_coef_optimizer (ready True) = Some ()" and h3: "log_ent_coef (ready True) = Some 0"
    and h4: "replay_buffer (ready True) = Some \<lparr>capacity = 100, action_sizes = [1], storage = []\<rparr>"
    and h5: "actor (ready True) = Some ?a"
    by (simp_all add: ready_True)
  have h6: "Sample (stub 1 1) \<lparr>capacity = 100, action_sizes = [1], storage = []\<rparr>
              (batch_size (ready True)) (world (ready True)) = (stub_batch 1 1 4, ())"
    by (simp add: ready_True stub_def)
  have h7: "PredictActionLogProb (stub 1 1) ?a (observation (stub_batch 1 1 4)) () = ((?z, ?z), ?a, ())"
    by (simp add: stub_def stub_batch_def eval_nat_numeral)
  have h8: "step_scalar (stub 1 1) () 0
              (- mean (map (\<lambda>x. x + Fin (target_entropy (ready True))) ?z)) = ((), - 1)"
    by (simp add: ready_True stub_def step_scalar_def mean_def)
  obtain s' ls' v where g: "gradient_step (stub 1 1) 0 (ready True) empty_lists = Inr (s', ls', v)"
    and h: "history s' = [EntCoefStep, TargetQ, CriticStep, ActorStep, TargetSync]"
    by (simp add: ready_True stub_def stub_batch_def step_simps eval_nat_numeral)
  note th = entropy_step_before_other_updates [OF g h2 h3 h4 h5 h6 h7 h8]
  from th have "log_ent_coef s' = Some (- 1)" by (elim conjE)
  moreover from th have "ent_coef_of v = \<lparr>data = Fin 1, leaves = {}\<rparr>"
    by (elim conjE) simp
  moreover from th have "leaves (critic_loss_of v) = {CriticParams}"
    by (elim conjE)
  moreover from th have "leaves (actor_loss_of v) = {ActorParams, CriticParams}"
    by (elim conjE)
  ultimately show ?thesis
    using h2 h3 h8 g h by blast
qed

section \<open>The loop of Train\<close>

lemma train_loop_unfold:
  "step < gradient_steps s \<Longrightarrow> gradient_step ext step s ls = Inr (s1, ls1, v) \<Longrightarrow>
     train_loop ext step s ls = train_loop ext (step + 1) s1 ls1"
  by (subst train_loop.simps) simp

lemma train_loop_exit:
  "\<not> step < gradient_steps s \<Longrightarrow> train_loop ext step s ls = Inr (s, ls)"
  by (subst train_loop.simps) simp

lemma train_loop_first:
  assumes "train_loop ext step s ls = Inr (s', ls')" and "step < gradient_steps s"
  obtains s1 ls1 v where "gradient_step ext step s ls = Inr (s1, ls1, v)"
    and "train_loop ext (step + 1) s1 ls1 = Inr (s', ls')"
proof (cases "gradient_step ext step s ls")
  case (Inl e)
  with assms show ?thesis by (subst (asm) train_loop.simps) simp
next
  case (Inr r)
  obtain s1 ls1 v where r: "r = (s1, ls1, v)" by (cases r)
  with Inr assms that show ?thesis by (simp add: train_loop_unfold)
qed

lemma train_loop_effect:
  "train_loop ext step s ls = Inr (s', ls') \<Longrightarrow>
     untouched s' = untouched s \<and>
     (\<exists>h. history s' = history s @ h \<and>
          count_list h TargetSync =
            length (filter (\<lambda>k. c_rem k (target_update_interval s) = 0) [step..gradient_steps s - 1]))"
proof (induction ext step s ls rule: train_loop.induct)
  case (1 ext step s ls)
  show ?case
  proof (cases "step < gradient_steps s")
    case False
    with "1.prems" show ?thesis by (simp add: train_loop_exit)
  next
    case True
    from "1.prems" True obtain s1 ls1 v where
      g: "gradient_step ext step s ls = Inr (s1, ls1, v)" and
      l: "train_loop ext (step + 1) s1 ls1 = Inr (s', ls')"
      by (rule train_loop_first)
    from gradient_step_untouched [OF g] have u: "untouched s1 = untouched s" .
    then have f: "gradient_steps s1 = gradient_steps s"
      "target_update_interval s1 = target_update_interval s"
      by (simp_all add: untouched_def)
    from "1.IH" [OF True g refl refl l] u f obtain h where
      u': "untouched s' = untouched s" and h: "history s' = history s1 @ h" and
      n: "count_list h TargetSync =
            length (filter (\<lambda>k. c_rem k (target_update_interval s) = 0) [step + 1..gradient_steps s - 1])"
      by auto
    from True have r: "[step..gradient_steps s - 1] = step # [step + 1..gradient_steps s - 1]"
      by (simp add: upto_rec1)
    from gradient_step_history [OF g] h n u' show ?thesis
      by (auto simp: r)
  qed
qed

subsection \<open>The log items after the loop\<close>

definition items_updated :: "('w, 'opt) sac \<Rightarrow> ('w, 'opt) sac \<Rightarrow> bool" where
  "items_updated s s' = (\<exists>li. s' = s\<lparr>log_items := li\<rparr> \<and> map fst li = map fst (log_items s))"

lemma items_updated_refl: "items_updated s s"
  by (auto simp: items_updated_def intro: exI [of _ "log_items s"])

lemma items_updated_trans: "items_updated s s1 \<Longrightarrow> items_updated s1 s2 \<Longrightarrow> items_updated s s2"
  by (auto simp: items_updated_def)

lemma map_of_keys: "map_of li k \<noteq> None \<Longrightarrow> k \<in> set (map fst li)"
  by (auto simp: map_of_eq_None_iff)

lemma and_then_InrE:
  assumes "and_then r f = Inr y"
  obtains x where "r = Inr x" and "f x = Inr y"
  using assms by (auto simp: and_then_Inr_iff)

lemma set_item_updated:
  assumes "set_item k v s = Inr s'"
  shows "items_updated s s'"
proof (cases "map_of (log_items s) k")
  case None
  with assms show ?thesis by (simp add: set_item_def items_updated_refl)
next
  case (Some y)
  then have k: "k \<in> set (map fst (log_items s))"
    by (auto dest: map_of_SomeD intro: rev_image_eqI)
  from Some assms obtain x where "s' = s\<lparr>log_items := AList.update k (Some x) (log_items s)\<rparr>"
    by (auto simp: set_item_def and_then_Inr_iff)
  moreover have "map fst (AList.update k (Some x) (log_items s)) = map fst (log_items s)"
    using k by (simp add: update_keys)
  ultimately show ?thesis
    unfolding items_updated_def by blast
qed

lemma record_log_items_updated:
  assumes "record_log_items ls s = Inr s'"
  shows "items_updated s s'"
proof (cases "log_items s = []")
  case True
  with assms show ?thesis by (simp add: record_log_items_def items_updated_refl)
next
  case False
  with assms obtain s1 s2 s3 s4 s5 s6 where
    i: "set_item ''num_updates'' (Inr (LongItem (num_updates s))) s = Inr s1"
    "set_item ''ent_coef'' (stack_mean (ent_coef_list ls)) s1 = Inr s2"
    "set_item ''actor_loss'' (stack_mean (actor_loss_list ls)) s2 = Inr s3"
    "set_item ''critic_loss'' (stack_mean (critic_loss_list ls)) s3 = Inr s4"
    "set_item ''ent_coef_loss'' (stack_mean (ent_coef_loss_list ls)) s4 = Inr s5"
    "set_item ''q_value'' (stack_mean_tensors (q_value_list ls)) s5 = Inr s6"
    "set_item ''reward'' (stack_mean_tensors (reward_list ls)) s6 = Inr s'"
    unfolding record_log_items_def by (simp only: if_False) (elim and_then_InrE, blast)
  have "items_updated s s3"
    using i(1,2,3) by (meson items_updated_trans set_item_updated)
  moreover have "items_updated s3 s6"
    using i(4,5,6) by (meson items_updated_trans set_item_updated)
  moreover have "items_updated s6 s'"
    using i(7) by (rule set_item_updated)
  ultimately show ?thesis
    by (meson items_updated_trans)
qed

text \<open>The parts of a call of \<open>Train\<close> that succeeded.\<close>

lemma Train_parts:
  assumes "Train ext s = Inr s'"
  obtains a c s2 ls where "actor s = Some a" "critic s = Some c"
    "train_loop ext 0 (s\<lparr>actor := Some (a\<lparr>training := True\<rparr>),
                          critic := Some (c\<lparr>training := True\<rparr>)\<rparr>) empty_lists = Inr (s2, ls)"
    "record_log_items ls (s2\<lparr>num_updates := num_updates s2 + gradient_steps s2\<rparr>) = Inr s'"
  using assms by (auto simp: Train_def and_then_Inr_iff deref_Inr_iff)

lemma items_updated_history: "items_updated s s' \<Longrightarrow> history s' = history s"
  by (auto simp: items_updated_def)

section \<open>The stride of the target synchronization\<close>

lemma update_target_sync:
  assumes "update_target step s = Inr s'" and "c_rem step (target_update_interval s) = 0"
  shows "\<exists>c t. critic s = Some c \<and> critic_target s = Some t \<and>
           s' = s\<lparr>critic_target :=
                     Some (t\<lparr>parameters := PolyakUpdate (parameters c) (parameters t) (tau s),
                             buffers := PolyakUpdate (buffers c) (buffers t) 1\<rparr>),
                   history := history s @ [TargetSync]\<rparr>"
  using assms
  by (auto simp: update_target_def and_then_Inr_iff deref_Inr_iff split: if_splits)

lemma untouched_tau: "untouched s' = untouched s \<Longrightarrow> tau s' = tau s"
  by (simp add: untouched_def)

text \<open>
  C10. In a call of \<open>Train\<close> with \<open>gradient_steps \<ge> 1\<close> and
  \<open>target_update_interval \<ge> 1\<close>, whatever the earlier calls did, the first gradient
  step runs with index 0 and ends with the synchronization of the target: from the
  state \<open>s5\<close> its actor update returns, with critic \<open>c5\<close> and target \<open>t5\<close>, the step
  returns \<open>s5\<close> with the parameters of the target replaced by
  \<open>PolyakUpdate (parameters c5) (parameters t5) tau\<close> and its buffers by
  \<open>PolyakUpdate (buffers c5) (buffers t5) 1\<close>. The call synchronizes once for every
  index in \<open>0 .. gradient_steps - 1\<close> that is a multiple of the interval, so at least
  once: the index restarts at 0 in each call.
\<close>

theorem target_sync_on_first_gradient_step:
  assumes "Train ext s = Inr s'" and "1 \<le> gradient_steps s" and "1 \<le> target_update_interval s"
  shows "(\<exists>a c s1 ls1 v1 acts lp w0 s4 s5 c5 t5 s2 ls2.
            actor s = Some a \<and> critic s = Some c \<and>
            gradient_step ext 0 (s\<lparr>actor := Some (a\<lparr>training := True\<rparr>),
                                    critic := Some (c\<lparr>training := True\<rparr>)\<rparr>) empty_lists
              = Inr (s1, ls1, v1) \<and>
            update_actor ext (batch_of v1) (tracked {ActorParams} acts) (tracked {ActorParams} lp)
              (ent_coef_of v1) w0 s4 = Inr (actor_loss_of v1, s5) \<and>
            critic s5 = Some c5 \<and> critic_target s5 = Some t5 \<and>
            update_target 0 s5 = Inr s1 \<and>
            s1 = s5\<lparr>critic_target :=
                      Some (t5\<lparr>parameters := PolyakUpdate (parameters c5) (parameters t5) (tau s),
                               buffers := PolyakUpdate (buffers c5) (buffers t5) 1\<rparr>),
                    history := history s5 @ [TargetSync]\<rparr> \<and>
            train_loop ext 1 s1 ls1 = Inr (s2, ls2) \<and>
            record_log_items ls2 (s2\<lparr>num_updates := num_updates s2 + gradient_steps s2\<rparr>) = Inr s') \<and>
         count_list (history s') TargetSync =
           count_list (history s) TargetSync +
           length (filter (\<lambda>k. c_rem k (target_update_interval s) = 0) [0..gradient_steps s - 1]) \<and>
         1 \<le> length (filter (\<lambda>k. c_rem k (target_update_interval s) = 0) [0..gradient_steps s - 1])"
proof -
  from assms(1) obtain a c s2 ls2 where a: "actor s = Some a" and c: "critic s = Some c" and
    l: "train_loop ext 0 (s\<lparr>actor := Some (a\<lparr>training := True\<rparr>),
                            critic := Some (c\<lparr>training := True\<rparr>)\<rparr>) empty_lists = Inr (s2, ls2)" and
    r: "record_log_items ls2 (s2\<lparr>num_updates := num_updates s2 + gradient_steps s2\<rparr>) = Inr s'"
    by (rule Train_parts)
  let ?s0 = "s\<lparr>actor := Some (a\<lparr>training := True\<rparr>), critic := Some (c\<lparr>training := True\<rparr>)\<rparr>"
  have h': "history s' = history s2"
    using items_updated_history [OF record_log_items_updated [OF r]] by simp
  from assms(2) have lt: "0 < gradient_steps ?s0" by simp
  from l lt obtain s1 ls1 v1 where
    g: "gradient_step ext 0 ?s0 empty_lists = Inr (s1, ls1, v1)" and
    l1: "train_loop ext (0 + 1) s1 ls1 = Inr (s2, ls2)"
    by (rule train_loop_first)
  from g obtain batch w0 acts lp ec a_loss s4 s5 where
    ac: "update_actor ext batch (tracked {ActorParams} acts) (tracked {ActorParams} lp) ec w0 s4
          = Inr (a_loss, s5)" and
    u: "update_target 0 s5 = Inr s1" and
    v: "batch_of v1 = batch" "ent_coef_of v1 = ec" "actor_loss_of v1 = a_loss"
    by (rule gradient_step_blocks) simp
  from gradient_step_untouched [OF g] update_target_untouched [OF u]
  have "untouched s5 = untouched ?s0" by simp
  then have t5: "tau s5 = tau s" "target_update_interval s5 = target_update_interval s"
    by (simp_all add: untouched_def)
  from update_target_sync [OF u] t5 obtain c5 t5 where
    s5: "critic s5 = Some c5" "critic_target s5 = Some t5"
      "s1 = s5\<lparr>critic_target :=
                 Some (t5\<lparr>parameters := PolyakUpdate (parameters c5) (parameters t5) (tau s),
                          buffers := PolyakUpdate (buffers c5) (buffers t5) 1\<rparr>),
               history := history s5 @ [TargetSync]\<rparr>"
    by auto
  from train_loop_effect [OF l] obtain k where
    "history s2 = history s @ k" and
    "count_list k TargetSync =
       length (filter (\<lambda>k. c_rem k (target_update_interval s) = 0) [0..gradient_steps s - 1])"
    by auto
  then have n: "count_list (history s') TargetSync =
           count_list (history s) TargetSync +
           length (filter (\<lambda>k. c_rem k (target_update_interval s) = 0) [0..gradient_steps s - 1])"
    by (simp add: h')
  from assms(2) have "[0..gradient_steps s - 1] = 0 # [0 + 1..gradient_steps s - 1]"
    by (simp add: upto_rec1)
  then have p: "1 \<le> length (filter (\<lambda>k. c_rem k (target_update_interval s) = 0) [0..gradient_steps s - 1])"
    by simp
  from l1 have l1': "train_loop ext 1 s1 ls1 = Inr (s2, ls2)" by simp
  have "\<exists>a c s1 ls1 v1 acts lp w0 s4 s5 c5 t5 s2 ls2.
            actor s = Some a \<and> critic s = Some c \<and>
            gradient_step ext 0 (s\<lparr>actor := Some (a\<lparr>training := True\<rparr>),
                                    critic := Some (c\<lparr>training := True\<rparr>)\<rparr>) empty_lists
              = Inr (s1, ls1, v1) \<and>
            update_actor ext (batch_of v1) (tracked {ActorParams} acts) (tracked {ActorParams} lp)
              (ent_coef_of v1) w0 s4 = Inr (actor_loss_of v1, s5) \<and>
            critic s5 = Some c5 \<and> critic_target s5 = Some t5 \<and>
            update_target 0 s5 = Inr s1 \<and>
            s1 = s5\<lparr>critic_target :=
                      Some (t5\<lparr>parameters := PolyakUpdate (parameters c5) (parameters t5) (tau s),
                               buffers := PolyakUpdate (buffers c5) (buffers t5) 1\<rparr>),
                    history := history s5 @ [TargetSync]\<rparr> \<and>
            train_loop ext 1 s1 ls1 = Inr (s2, ls2) \<and>
            record_log_items ls2 (s2\<lparr>num_updates := num_updates s2 + gradient_steps s2\<rparr>) = Inr s'"
    using a c g ac [folded v] s5 u l1' r by blast
  with n p show ?thesis by blast
qed

theorem target_sync_on_first_gradient_step_witness:
  "1 \<le> gradient_steps ((ready True)\<lparr>target_update_interval := 7, tau := 1 / 2\<rparr>) \<and>
   1 \<le> target_update_interval ((ready True)\<lparr>target_update_interval := 7, tau := 1 / 2\<rparr>) \<and>
   (\<exists>s'. Train (stub 1 1) ((ready True)\<lparr>target_update_interval := 7, tau := 1 / 2\<rparr>) = Inr s' \<and>
      critic s' = Some \<lparr>parameters = [- 1, - 1], buffers = [0], training = True\<rparr> \<and>
      critic_target s' = Some \<lparr>parameters = [- 1 / 2, - 1 / 2], buffers = [0], training = False\<rparr> \<and>
      critic_target (ready True) = Some \<lparr>parameters = [0, 0], buffers = [0], training = False\<rparr> \<and>
      count_list (history s') TargetSync = 1)"
proof -
  let ?s = "(ready True)\<lparr>target_update_interval := 7, tau := 1 / 2\<rparr>"
  have h: "1 \<le> gradient_steps ?s" "1 \<le> target_update_interval ?s"
    by (simp_all add: ready_True)
  obtain s' where t: "Train (stub 1 1) ?s = Inr s'"
    and c: "critic s' = Some \<lparr>parameters = [- 1, - 1], buffers = [0], training = True\<rparr>"
    and ct: "critic_target s' = Some \<lparr>parameters = [- 1 / 2, - 1 / 2], buffers = [0], training = False\<rparr>"
    by (simp add: ready_True stub_def stub_batch_def step_simps train_simps eval_nat_numeral)
  have r: "critic_target (ready True) = Some \<lparr>parameters = [0, 0], buffers = [0], training = False\<rparr>"
    by (simp add: ready_True)
  from target_sync_on_first_gradient_step [OF t h]
  have "count_list (history s') TargetSync =
          count_list (history ?s) TargetSync +
          length (filter (\<lambda>k. c_rem k (target_update_interval ?s) = 0) [0..gradient_steps ?s - 1])"
    by blast
  then have "count_list (history s') TargetSync = 1"
    by (simp add: ready_True upto_rec1)
  with h t c ct r show ?thesis by blast
qed

section \<open>The step counter\<close>

text \<open>The members \<open>CollectRollouts\<close> never assigns.\<close>

definition rollout_untouched ::
  "('w, 'opt) sac \<Rightarrow>
     (int \<times> int \<times> int \<times> int \<times> int \<times> string \<times> items \<times> 'opt written list) \<times>
     (int \<times> int \<times> real \<times> real \<times> real \<times> real \<times> real \<times> bool \<times> bool \<times> int \<times> int \<times> int) \<times>
     (module option \<times> 'opt option \<times> 'opt option \<times> 'opt option \<times> real option \<times> real option \<times> event list)" where
  "rollout_untouched s =
    ((num_iters s, max_time_steps s, num_updates s, monitor_interval s,
      checkpoint_interval s, output_path s, log_items s, outputs s),
     (learning_starts s, batch_size s, lr s, tau s, gamma s, ent_coef s, target_entropy s,
      auto_ent_coef s, auto_target_entropy s, train_freq s, gradient_steps s,
      target_update_interval s),
     (critic_target s, actor_optimizer s, critic_optimizer s, ent_coef_optimizer s,
      log_ent_coef s, ent_coef_tensor s, history s))"

lemma store_transition_effect:
  "store_transition a n r d s = Inr s' \<Longrightarrow>
     rollout_untouched s' = rollout_untouched s \<and> time_steps s' = time_steps s \<and>
     actor s' = actor s \<and> critic s' = critic s \<and>
     (\<exists>b. replay_buffer s = Some b \<and>
          replay_buffer s' = Some (Add \<lparr>observation = current_observation s, action = a,
             next_observation = n, reward = r, is_done = d\<rparr> b))"
  by (auto simp: store_transition_def and_then_Inr_iff deref_Inr_iff rollout_untouched_def)

lemma warmup_step_effect:
  assumes "warmup_step ext s = Inr s'"
  shows "rollout_untouched s' = rollout_untouched s \<and> time_steps s' = time_steps s \<and>
     actor s' = actor s \<and> critic s' = critic s \<and>
     (\<exists>b t. replay_buffer s = Some b \<and> replay_buffer s' = Some (Add t b))"
proof -
  from assms obtain a n r d w where
    "store_transition a n r d (s\<lparr>world := w\<rparr>) = Inr s'"
    by (auto simp: warmup_step_def Let_def split: prod.splits)
  from store_transition_effect [OF this] show ?thesis
    by (auto simp: rollout_untouched_def)
qed

lemma policy_step_effect:
  assumes "policy_step ext s = Inr s'"
  shows "rollout_untouched s' = rollout_untouched s \<and>
     time_steps s' = time_steps s + NumEnvs ext \<and>
     actor s' = actor s \<and> critic s' = critic s \<and>
     (\<exists>b t. replay_buffer s = Some b \<and> replay_buffer s' = Some (Add t b))"
proof -
  from assms obtain a n r d w s1 where
    st: "store_transition a n r d (s\<lparr>world := w\<rparr>) = Inr s1" and
    s': "s' = s1\<lparr>time_steps := time_steps s1 + NumEnvs ext\<rparr>"
    by (auto simp: policy_step_def and_then_def deref_def Let_def
             split: prod.splits option.splits sum.splits)
  from store_transition_effect [OF st] show ?thesis
    by (auto simp: rollout_untouched_def s')
qed

lemma warmup_loop_unfold:
  "step < learning_starts s \<Longrightarrow> warmup_step ext s = Inr s1 \<Longrightarrow>
     warmup_loop ext step s = warmup_loop ext (step + 1) s1"
  by (subst warmup_loop.simps) simp

lemma warmup_loop_exit: "\<not> step < learning_starts s \<Longrightarrow> warmup_loop ext step s = Inr s"
  by (subst warmup_loop.simps) simp

lemma warmup_loop_first:
  assumes "warmup_loop ext step s = Inr s'" and "step < learning_starts s"
  obtains s1 where "warmup_step ext s = Inr s1" and "warmup_loop ext (step + 1) s1 = Inr s'"
proof (cases "warmup_step ext s")
  case (Inl e)
  with assms show ?thesis by (subst (asm) warmup_loop.simps) simp
next
  case (Inr s1)
  with assms that show ?thesis by (simp add: warmup_loop_unfold)
qed

lemma policy_loop_unfold:
  "step < train_freq s \<Longrightarrow> policy_step ext s = Inr s1 \<Longrightarrow>
     policy_loop ext step s = policy_loop ext (step + 1) s1"
  by (subst policy_loop.simps) simp

lemma policy_loop_exit: "\<not> step < train_freq s \<Longrightarrow> policy_loop ext step s = Inr s"
  by (subst policy_loop.simps) simp

lemma policy_loop_first:
  assumes "policy_loop ext step s = Inr s'" and "step < train_freq s"
  obtains s1 where "policy_step ext s = Inr s1" and "policy_loop ext (step + 1) s1 = Inr s'"
proof (cases "policy_step ext s")
  case (Inl e)
  with assms show ?thesis by (subst (asm) policy_loop.simps) simp
next
  case (Inr s1)
  with assms that show ?thesis by (simp add: policy_loop_unfold)
qed

lemma warmup_loop_effect:
  "warmup_loop ext step s = Inr s' \<Longrightarrow>
     rollout_untouched s' = rollout_untouched s \<and> time_steps s' = time_steps s \<and>
     actor s' = actor s \<and> critic s' = critic s"
proof (induction ext step s rule: warmup_loop.induct)
  case (1 ext step s)
  show ?case
  proof (cases "step < learning_starts s")
    case False
    with "1.prems" show ?thesis by (simp add: warmup_loop_exit)
  next
    case True
    from "1.prems" True obtain s1 where
      w: "warmup_step ext s = Inr s1" and l: "warmup_loop ext (step + 1) s1 = Inr s'"
      by (rule warmup_loop_first)
    from "1.IH" [OF True w l] warmup_step_effect [OF w] show ?thesis by simp
  qed
qed

lemma policy_loop_effect:
  "policy_loop ext step s = Inr s' \<Longrightarrow>
     rollout_untouched s' = rollout_untouched s \<and>
     time_steps s' = time_steps s + NumEnvs ext * max 0 (train_freq s - step) \<and>
     actor s' = actor s \<and> critic s' = critic s"
proof (induction ext step s rule: policy_loop.induct)
  case (1 ext step s)
  show ?case
  proof (cases "step < train_freq s")
    case False
    with "1.prems" show ?thesis by (simp add: policy_loop_exit)
  next
    case True
    from "1.prems" True obtain s1 where
      p: "policy_step ext s = Inr s1" and l: "policy_loop ext (step + 1) s1 = Inr s'"
      by (rule policy_loop_first)
    from policy_step_effect [OF p] have u: "rollout_untouched s1 = rollout_untouched s"
      and t: "time_steps s1 = time_steps s + NumEnvs ext"
      and ac: "actor s1 = actor s" "critic s1 = critic s"
      by simp_all
    from u have f: "train_freq s1 = train_freq s" by (simp add: rollout_untouched_def)
    from True have m: "max 0 (train_freq s - step) = 1 + max 0 (train_freq s - (step + 1))"
      by simp
    from "1.IH" [OF True p l] u t ac f show ?thesis
      by (simp add: m algebra_simps)
  qed
qed

lemma CollectRollouts_effect:
  assumes "CollectRollouts ext s = Inr s'"
  shows "rollout_untouched s' = rollout_untouched s \<and>
         time_steps s' = time_steps s + NumEnvs ext * max 0 (train_freq s)"
proof -
  from assms obtain a c s2 where
    w: "(if num_iters s = 0
         then warmup_loop ext 0 (s\<lparr>actor := Some (a\<lparr>training := False\<rparr>),
                                    critic := Some (c\<lparr>training := False\<rparr>)\<rparr>)
         else Inr (s\<lparr>actor := Some (a\<lparr>training := False\<rparr>),
                       critic := Some (c\<lparr>training := False\<rparr>)\<rparr>)) = Inr s2" and
    p: "policy_loop ext 0 s2 = Inr s'"
    by (auto simp: CollectRollouts_def and_then_Inr_iff deref_Inr_iff Let_def)
  let ?s1 = "s\<lparr>actor := Some (a\<lparr>training := False\<rparr>), critic := Some (c\<lparr>training := False\<rparr>)\<rparr>"
  have "rollout_untouched s2 = rollout_untouched ?s1 \<and> time_steps s2 = time_steps ?s1"
  proof (cases "num_iters s = 0")
    case True
    with w have "warmup_loop ext 0 ?s1 = Inr s2" by simp
    from warmup_loop_effect [OF this] show ?thesis by simp
  next
    case False
    with w show ?thesis by simp
  qed
  then have u: "rollout_untouched s2 = rollout_untouched s" and t: "time_steps s2 = time_steps s"
    by (simp_all add: rollout_untouched_def)
  from u have "train_freq s2 = train_freq s" by (simp add: rollout_untouched_def)
  with policy_loop_effect [OF p] u t show ?thesis by simp
qed

fun logged_keys :: "'opt written \<Rightarrow> string set" where
  "logged_keys (LogHeader li) = fst ` set li"
| "logged_keys (Printed n li) = fst ` set li"
| "logged_keys (LogRow n li) = fst ` set li"
| "logged_keys (Saved n a) = {}"

lemma Train_effect:
  assumes "Train ext s = Inr s'"
  shows "time_steps s' = time_steps s \<and> train_freq s' = train_freq s \<and>
         num_iters s' = num_iters s \<and> max_time_steps s' = max_time_steps s \<and>
         gradient_steps s' = gradient_steps s \<and>
         num_updates s' = num_updates s + gradient_steps s \<and>
         outputs s' = outputs s \<and> map fst (log_items s') = map fst (log_items s)"
proof -
  from assms obtain a c s2 ls where
    l: "train_loop ext 0 (s\<lparr>actor := Some (a\<lparr>training := True\<rparr>),
                            critic := Some (c\<lparr>training := True\<rparr>)\<rparr>) empty_lists = Inr (s2, ls)" and
    r: "record_log_items ls (s2\<lparr>num_updates := num_updates s2 + gradient_steps s2\<rparr>) = Inr s'"
    by (rule Train_parts)
  from train_loop_effect [OF l] have "untouched s2 = untouched s"
    by (simp add: untouched_def)
  with record_log_items_updated [OF r] show ?thesis
    by (auto simp: items_updated_def untouched_def)
qed

lemma Monitor_effect:
  "\<exists>new. Monitor s = s\<lparr>outputs := outputs s @ new\<rparr> \<and>
         (\<forall>x \<in> set new. logged_keys x = fst ` set (log_items s))"
proof (cases "monitor_interval s \<le> 0 \<or> c_rem (num_iters s) (monitor_interval s) \<noteq> 0")
  case True
  then have "Monitor s = s\<lparr>outputs := outputs s @ []\<rparr>" by (simp add: Monitor_def)
  then show ?thesis by (intro exI [of _ "[]"]) simp
next
  case False
  show ?thesis
  proof (cases "output_path s = []")
    case True
    with False have "Monitor s = s\<lparr>outputs := outputs s @ [Printed (time_steps s) (log_items s)]\<rparr>"
      by (simp add: Monitor_def Let_def)
    then show ?thesis by (intro exI [of _ "[Printed (time_steps s) (log_items s)]"]) simp
  next
    case nonempty: False
    with False have "Monitor s = s\<lparr>outputs := outputs s @
        [Printed (time_steps s) (log_items s), LogRow (time_steps s) (log_items s)]\<rparr>"
      by (simp add: Monitor_def Let_def)
    then show ?thesis
      by (intro exI [of _ "[Printed (time_steps s) (log_items s), LogRow (time_steps s) (log_items s)]"])
         simp
  qed
qed

lemma Checkpoint_effect:
  assumes "Checkpoint s = Inr s'"
  shows "\<exists>new. s' = s\<lparr>outputs := outputs s @ new\<rparr> \<and> (\<forall>x \<in> set new. logged_keys x = {})"
proof (cases "checkpoint_interval s \<le> 0 \<or> c_rem (num_iters s) (checkpoint_interval s) \<noteq> 0
              \<or> output_path s = []")
  case True
  with assms have "s' = s\<lparr>outputs := outputs s @ []\<rparr>"
    by (auto simp: Checkpoint_def split: if_splits)
  then show ?thesis by (intro exI [of _ "[]"]) simp
next
  case False
  with assms obtain a where "s' = s\<lparr>outputs := outputs s @ [Saved (time_steps s) a]\<rparr>"
    by (auto simp: Checkpoint_def and_then_Inr_iff)
  then show ?thesis by (intro exI [of _ "[Saved (time_steps s) a]"]) simp
qed

lemma Learn_body_parts:
  assumes "Learn_body ext s = Inr s'"
  obtains s1 s2 s3 where "CollectRollouts ext s = Inr s1" "Train ext s1 = Inr s2"
    "Checkpoint (Monitor s2) = Inr s3" "s' = Update s3"
  using assms by (auto simp: Learn_body_def and_then_Inr_iff)

lemma Learn_body_effect:
  assumes "Learn_body ext s = Inr s'"
  shows "time_steps s' = time_steps s + NumEnvs ext * max 0 (train_freq s) \<and>
         train_freq s' = train_freq s \<and> gradient_steps s' = gradient_steps s \<and>
         max_time_steps s' = max_time_steps s \<and>
         num_iters s' = num_iters s + 1 \<and> num_updates s' = num_updates s + gradient_steps s \<and>
         map fst (log_items s') = map fst (log_items s) \<and>
         (\<exists>new. outputs s' = outputs s @ new \<and>
                (\<forall>x \<in> set new. logged_keys x \<subseteq> fst ` set (log_items s)))"
proof -
  from assms obtain s1 s2 s3 where c: "CollectRollouts ext s = Inr s1" and t: "Train ext s1 = Inr s2"
    and k: "Checkpoint (Monitor s2) = Inr s3" and u: "s' = Update s3"
    by (rule Learn_body_parts)
  from CollectRollouts_effect [OF c] have
    c1: "time_steps s1 = time_steps s + NumEnvs ext * max 0 (train_freq s)" and
    c2: "train_freq s1 = train_freq s" "gradient_steps s1 = gradient_steps s"
        "max_time_steps s1 = max_time_steps s" "num_iters s1 = num_iters s"
        "num_updates s1 = num_updates s" "log_items s1 = log_items s" "outputs s1 = outputs s"
    by (simp_all add: rollout_untouched_def)
  note t' = Train_effect [OF t]
  from Monitor_effect [of s2] obtain new1 where
    m: "Monitor s2 = s2\<lparr>outputs := outputs s2 @ new1\<rparr>" and
    m': "\<forall>x \<in> set new1. logged_keys x = fst ` set (log_items s2)"
    by blast
  from Checkpoint_effect [OF k] obtain new2 where
    k1: "s3 = (Monitor s2)\<lparr>outputs := outputs (Monitor s2) @ new2\<rparr>" and
    k2: "\<forall>x \<in> set new2. logged_keys x = {}"
    by blast
  have keys: "fst ` set (log_items s2) = fst ` set (log_items s)"
    using t' c2 by (metis set_map)
  have o: "outputs s' = outputs s @ (new1 @ new2)"
    using t' c2 by (simp add: u Update_def k1 m)
  have "\<forall>x \<in> set (new1 @ new2). logged_keys x \<subseteq> fst ` set (log_items s)"
    using m' k2 keys by auto
  with o have "\<exists>new. outputs s' = outputs s @ new \<and>
                (\<forall>x \<in> set new. logged_keys x \<subseteq> fst ` set (log_items s))"
    by blast
  with t' c1 c2 show ?thesis
    by (simp add: u Update_def k1 m)
qed

lemma Learn_run_time_steps:
  "Learn_run ext n s s' \<Longrightarrow>
     time_steps s' = time_steps s + NumEnvs ext * max 0 (train_freq s) * int n \<and>
     train_freq s' = train_freq s \<and> num_iters s' = num_iters s + int n"
proof (induction rule: Learn_run.induct)
  case (run_0 ext s)
  show ?case by simp
next
  case (run_Suc s ext s1 n s')
  from Learn_body_effect [OF run_Suc.hyps(2)] run_Suc.IH show ?case
    by (simp add: algebra_simps)
qed

text \<open>
  C3. When the loop of \<open>Learn\<close> has completed \<open>n\<close> iterations, \<open>time_steps\<close> is
  \<open>NumEnvs * train_freq * n\<close>, for a \<open>train_freq\<close> that is not negative: \<open>Learn\<close> starts
  the counter at 0, each policy step of \<open>CollectRollouts\<close> adds \<open>NumEnvs\<close>, and the
  warmup loop of iteration 0 adds nothing.
\<close>

theorem time_steps_after_iterations:
  assumes "Learn_run ext n (Learn_init max_steps monitor checkpoint s) s'"
    and "0 \<le> train_freq s"
  shows "time_steps s' = NumEnvs ext * train_freq s * int n"
  using Learn_run_time_steps [OF assms(1)] assms(2)
  by (simp add: Learn_init_def)

theorem time_steps_after_iterations_witness:
  "0 \<le> train_freq ((ready True)\<lparr>train_freq := 2\<rparr>) \<and>
   (\<exists>s'. Learn_run (stub 1 0) 2 (Learn_init 4 0 0 ((ready True)\<lparr>train_freq := 2\<rparr>)) s' \<and>
         time_steps s' = 4)"
proof -
  let ?s = "(ready True)\<lparr>train_freq := 2\<rparr>"
  have f: "0 \<le> train_freq ?s" by (simp add: ready_True)
  have "\<exists>s1 s2. Learn_body (stub 1 0) (Learn_init 4 0 0 ?s) = Inr s1 \<and> Proceed s1 \<and>
           Learn_body (stub 1 0) s1 = Inr s2"
    by (simp add: ready_True stub_def stub_batch_def learn_simps rollout_simps step_simps
        train_simps eval_nat_numeral)
  then obtain s1 s2 where b1: "Learn_body (stub 1 0) (Learn_init 4 0 0 ?s) = Inr s1"
    and p1: "Proceed s1" and b2: "Learn_body (stub 1 0) s1 = Inr s2"
    by blast
  have p0: "Proceed (Learn_init 4 0 0 ?s)"
    by (simp add: Proceed_def Learn_init_def)
  have r: "Learn_run (stub 1 0) 2 (Learn_init 4 0 0 ?s) s2"
    using run_Suc [OF p0 b1 run_Suc [OF p1 b2 run_0]] by (simp add: numeral_2_eq_2)
  from time_steps_after_iterations [OF r f] have "time_steps s2 = 4"
    by (simp add: stub_def ready_True)
  with f r show ?thesis by blast
qed

lemma body_True:
  "\<exists>s2 b c t. Learn_body (stub 1 0) (Learn_init 1 0 0 (ready True)) = Inr s2 \<and> \<not> Proceed s2 \<and>
      replay_buffer s2 = Some b \<and> length (storage b) = 11 \<and> num_updates s2 = 1 \<and>
      time_steps s2 = 1 \<and> num_iters s2 = 1 \<and> critic s2 = Some c \<and> critic_target s2 = Some t \<and>
      parameters t = parameters c"
  by (simp add: ready_True stub_def stub_batch_def learn_simps rollout_simps step_simps
        train_simps eval_nat_numeral)

lemma body_False:
  "\<exists>s2 b c t. Learn_body (stub 1 0) (Learn_init 1 0 0 (ready False)) = Inr s2 \<and> \<not> Proceed s2 \<and>
      replay_buffer s2 = Some b \<and> length (storage b) = 11 \<and> num_updates s2 = 1 \<and>
      time_steps s2 = 1 \<and> num_iters s2 = 1 \<and> critic s2 = Some c \<and> critic_target s2 = Some t \<and>
      parameters t = parameters c"
  by (simp add: ready_False stub_def stub_batch_def learn_simps rollout_simps step_simps
        train_simps eval_nat_numeral)

lemma Learn_loop_once:
  "Proceed s \<Longrightarrow> Learn_body ext s = Inr s' \<Longrightarrow> \<not> Proceed s' \<Longrightarrow>
     Learn_loop ext s = Some (Inr s') \<and> Learn_run ext 1 s s'"
proof
  assume p: "Proceed s" and b: "Learn_body ext s = Inr s'" and n: "\<not> Proceed s'"
  have "Learn_loop ext s = Learn_loop ext s'"
    using p b by (subst Learn_loop.simps) simp
  also have "\<dots> = Some (Inr s')"
    using n by (subst Learn_loop.simps) simp
  finally show "Learn_loop ext s = Some (Inr s')" .
  from p b show "Learn_run ext 1 s s'"
    using run_Suc [OF p b run_0] by simp
qed

section \<open>The end-to-end scenario\<close>

text \<open>
  C4. The object constructed with \<open>learning_starts = 10\<close>, \<open>batch_size = 4\<close>,
  \<open>train_freq = 1\<close>, \<open>gradient_steps = 1\<close>, \<open>target_update_interval = 1\<close>, \<open>tau = 1\<close>, in
  auto or in fixed entropy mode, with the stub environment (one environment, reward
  1, done 0, size one): after \<open>Reset\<close>, \<open>Learn\<close> with a budget of one step returns after
  one iteration, and then the replay buffer holds 11 transitions, \<open>num_updates\<close> and
  \<open>time_steps\<close> are 1, and the parameters of the critic target are those of the critic.
\<close>

theorem end_to_end_scenario:
  "\<exists>s1 s2 b c t. Reset (stub 1 0) (scenario auto) = Inr s1 \<and>
      Learn (stub 1 0) 1 0 0 s1 = Some (Inr s2) \<and>
      Learn_run (stub 1 0) 1 (Learn_init 1 0 0 s1) s2 \<and>
      replay_buffer s2 = Some b \<and> length (storage b) = 11 \<and>
      num_updates s2 = 1 \<and> time_steps s2 = 1 \<and>
      critic s2 = Some c \<and> critic_target s2 = Some t \<and> parameters t = parameters c"
proof -
  have "\<exists>s2 b c t. Learn_body (stub 1 0) (Learn_init 1 0 0 (ready auto)) = Inr s2 \<and> \<not> Proceed s2 \<and>
      replay_buffer s2 = Some b \<and> length (storage b) = 11 \<and> num_updates s2 = 1 \<and>
      time_steps s2 = 1 \<and> num_iters s2 = 1 \<and> critic s2 = Some c \<and> critic_target s2 = Some t \<and>
      parameters t = parameters c"
    using body_True body_False by (cases auto) simp_all
  then obtain s2 b c t where
    body: "Learn_body (stub 1 0) (Learn_init 1 0 0 (ready auto)) = Inr s2" and
    stop: "\<not> Proceed s2" and
    rest: "replay_buffer s2 = Some b" "length (storage b) = 11" "num_updates s2 = 1"
      "time_steps s2 = 1" "critic s2 = Some c" "critic_target s2 = Some t"
      "parameters t = parameters c"
    by blast
  have "Proceed (Learn_init 1 0 0 (ready auto))"
    by (simp add: Proceed_def Learn_init_def)
  from Learn_loop_once [OF this body stop] rest show ?thesis
    unfolding Learn_def Reset_scenario by blast
qed

section \<open>The target entropy\<close>

text \<open>What \<open>Reset\<close> makes of the target entropy of an object from the constructor. With
  none supplied and \<open>auto_ent_coef\<close> set it is the negated product of the action sizes
  of the replay buffer; in fixed entropy mode, where no method reads the member,
  \<open>Reset\<close> leaves it alone; a supplied value is kept where the flag
  \<^verbatim>\<open>auto_target_entropy_\<close>, which the constructor does not assign then, reads false.\<close>

lemma target_entropy_after_Reset:
  assumes "Reset ext (SAC_new ls bs l t g e auto te tf gs tui path je jf w) = Inr s'"
  shows "(te = None \<and> auto \<longrightarrow>
            target_entropy s' = - real_of_int (prod_list (action_sizes (MakeReplayBuffer ext)))) \<and>
         (te = None \<and> \<not> auto \<longrightarrow> target_entropy s' = je) \<and>
         (\<forall>x. te = Some x \<and> (\<not> auto \<or> \<not> jf) \<longrightarrow> target_entropy s' = x) \<and>
         (\<forall>x. te = Some x \<and> auto \<and> jf \<longrightarrow>
            target_entropy s' = - real_of_int (prod_list (action_sizes (MakeReplayBuffer ext))))"
  using Reset_result [OF assms] by (auto simp: SAC_new_def)

lemma target_entropy_derived:
  "map_sum id target_entropy
     (Reset ((stub 1 0)\<lparr>MakeReplayBuffer := \<lparr>capacity = 100, action_sizes = [2, 3], storage = []\<rparr>\<rparr>)
        (SAC_new 10 4 (3 / 10000) 1 (99 / 100) 1 True None 1 1 1 [] 7 False ())) = Inr (- 6)"
  by (simp add: stub_simps)

lemma supplied_target_entropy_kept:
  "map_sum id target_entropy
     (Reset (stub 1 0) (SAC_new 10 4 (3 / 10000) 1 (99 / 100) 1 True (Some 5) 1 1 1 [] 7 False ()))
     = Inr 5"
  by (simp add: stub_simps)

text \<open>
  C6. A target entropy supplied at construction is to be retained. The constructor
  assigns \<^verbatim>\<open>auto_target_entropy_\<close> only when no target entropy is supplied (line 39); the
  member has no initializer, so with a supplied value it keeps the indeterminate
  content of its storage. When that reads true, \<open>Reset\<close> in auto entropy mode replaces
  the supplied value by the heuristic default. Here 5 is supplied, the storage of the
  flag reads true, and there is one action dimension: after \<open>Reset\<close> the target entropy
  is \<open>- 1\<close>.
\<close>

theorem supplied_target_entropy_overwritten:
  "map_sum id target_entropy
     (Reset (stub 1 0) (SAC_new 10 4 (3 / 10000) 1 (99 / 100) 1 True (Some 5) 1 1 1 [] 7 True ()))
     = Inr (- 1)"
  by (simp add: stub_simps)

section \<open>Saving and loading\<close>

lemma wants_only: "wants {k'} k \<longleftrightarrow> k' = ''all'' \<or> k = k'"
  by (auto simp: wants_def)

lemma save_hparams_read:
  "read_tensor (save_hparams s a) ''learning_starts'' = Some (Long (learning_starts s))"
  "read_tensor (save_hparams s a) ''batch_size'' = Some (Long (batch_size s))"
  "read_tensor (save_hparams s a) ''lr'' = Some (Float (float32 (lr s)))"
  "read_tensor (save_hparams s a) ''tau'' = Some (Float (float32 (tau s)))"
  "read_tensor (save_hparams s a) ''gamma'' = Some (Float (float32 (gamma s)))"
  "read_tensor (save_hparams s a) ''ent_coef'' = Some (Float (float32 (ent_coef s)))"
  "read_tensor (save_hparams s a) ''target_entropy'' = Some (Float (float32 (target_entropy s)))"
  "read_tensor (save_hparams s a) ''auto_ent_coef'' = Some (Bool (auto_ent_coef s))"
  "read_tensor (save_hparams s a) ''train_freq'' = Some (Long (train_freq s))"
  "read_tensor (save_hparams s a) ''gradient_steps'' = Some (Long (gradient_steps s))"
  "read_tensor (save_hparams s a) ''target_update_interval'' = Some (Long (target_update_interval s))"
  by (simp_all add: save_hparams_def read_tensor_def Let_def split: option.splits)

lemma load_hparams_fields:
  "learning_starts (load_hparams a s) =
     (case read_tensor a ''learning_starts'' of Some v \<Rightarrow> item_Int v | None \<Rightarrow> learning_starts s)"
  "batch_size (load_hparams a s) =
     (case read_tensor a ''batch_size'' of Some v \<Rightarrow> item_Int v | None \<Rightarrow> batch_size s)"
  "lr (load_hparams a s) = (case read_tensor a ''lr'' of Some v \<Rightarrow> item_double v | None \<Rightarrow> lr s)"
  "tau (load_hparams a s) = (case read_tensor a ''tau'' of Some v \<Rightarrow> item_double v | None \<Rightarrow> tau s)"
  "gamma (load_hparams a s) =
     (case read_tensor a ''gamma'' of Some v \<Rightarrow> item_double v | None \<Rightarrow> gamma s)"
  "ent_coef (load_hparams a s) =
     (case read_tensor a ''ent_coef'' of Some v \<Rightarrow> item_double v | None \<Rightarrow> ent_coef s)"
  "target_entropy (load_hparams a s) =
     (case read_tensor a ''target_entropy'' of Some v \<Rightarrow> item_double v | None \<Rightarrow> target_entropy s)"
  "auto_ent_coef (load_hparams a s) =
     (case read_tensor a ''auto_ent_coef'' of Some v \<Rightarrow> item_bool v | None \<Rightarrow> auto_ent_coef s)"
  "train_freq (load_hparams a s) =
     (case read_tensor a ''train_freq'' of Some v \<Rightarrow> item_Int v | None \<Rightarrow> train_freq s)"
  "gradient_steps (load_hparams a s) =
     (case read_tensor a ''gradient_steps'' of Some v \<Rightarrow> item_Int v | None \<Rightarrow> gradient_steps s)"
  "target_update_interval (load_hparams a s) =
     (case read_tensor a ''target_update_interval'' of Some v \<Rightarrow> item_Int v
      | None \<Rightarrow> target_update_interval s)"
  "log_ent_coef (load_hparams a s) =
     (case read_tensor a ''log_ent_coef'' of Some v \<Rightarrow> Some (item_double v) | None \<Rightarrow> log_ent_coef s)"
  "ent_coef_tensor (load_hparams a s) =
     (case read_tensor a ''ent_coef_tensor'' of Some v \<Rightarrow> Some (item_double v)
      | None \<Rightarrow> ent_coef_tensor s)"
  by (simp_all add: load_hparams_def)

lemma SaveArchive_hparams:
  assumes "SaveArchive s names a0 = Inr a" and "wants names ''hparams''"
  shows "\<exists>a6. a = save_hparams s a6"
proof -
  from assms(1) have "\<exists>a5. a = save_hparams s
          (case ent_coef_optimizer s of
             Some opt \<Rightarrow> if wants names ''ent_coef_optimizer''
                         then a5(''ent_coef_optimizer'' \<mapsto> OptimizerEntry opt) else a5
           | None \<Rightarrow> a5)"
    unfolding SaveArchive_def using assms(2)
    by (elim and_then_InrE) (auto simp: Let_def)
  then show ?thesis by blast
qed

lemma LoadArchive_hparams:
  assumes "LoadArchive a names s = Inr s'" and "wants names ''hparams''"
  shows "\<exists>s2. s' = load_hparams a s2"
  using assms by (auto simp: LoadArchive_def elim!: and_then_InrE)

lemma SaveArchive_only_hparams:
  "SaveArchive s {''hparams''} a = Inr (save_hparams s a)"
  by (simp add: SaveArchive_def save_module_def save_optimizer_def wants_only split: option.splits)

lemma LoadArchive_only_hparams:
  "LoadArchive a {''hparams''} s = Inr (load_hparams a s)"
  by (simp add: LoadArchive_def load_networks_def load_optimizers_def wants_only)

text \<open>What the round trip gives: the integer and boolean hyperparameters as they were,
  the five \<^verbatim>\<open>double\<close> hyperparameters narrowed to \<^verbatim>\<open>float\<close>.\<close>

lemma hparams_round_trip_narrowed:
  assumes "wants names ''hparams''" and "wants names' ''hparams''"
    and "SaveArchive s names a0 = Inr a" and "LoadArchive a names' s0 = Inr s'"
  shows "learning_starts s' = learning_starts s \<and> batch_size s' = batch_size s \<and>
         lr s' = float32 (lr s) \<and> tau s' = float32 (tau s) \<and> gamma s' = float32 (gamma s) \<and>
         ent_coef s' = float32 (ent_coef s) \<and>
         target_entropy s' = float32 (target_entropy s) \<and> auto_ent_coef s' = auto_ent_coef s \<and>
         train_freq s' = train_freq s \<and> gradient_steps s' = gradient_steps s \<and>
         target_update_interval s' = target_update_interval s"
proof -
  from SaveArchive_hparams [OF assms(3,1)] obtain a6 where a: "a = save_hparams s a6" by blast
  from LoadArchive_hparams [OF assms(4,2)] obtain s2 where s': "s' = load_hparams a s2" by blast
  show ?thesis
    unfolding s' a load_hparams_fields save_hparams_read by simp
qed

lemma float32_learning_rate: "float32 (3 / 10000) = 5153961 / 17179869184"
  by (simp add: float32_simps)

lemma float32_discount: "float32 (99 / 100) = 8304722 / 8388608"
  by (simp add: float32_simps)

text \<open>
  C7. The round trip is to restore every scalar hyperparameter exactly. \<open>SaveArchive\<close>
  writes the five \<^verbatim>\<open>double\<close> members with \<^verbatim>\<open>torch::tensor(x)\<close> and no element type
  (lines 337 to 341), which makes \<^verbatim>\<open>float\<close> tensors, while \<open>LoadArchive\<close> reads them back
  with \<^verbatim>\<open>item<double>()\<close>; the integer and boolean members beside them keep their
  values. The object of the scenario has the learning rate \<open>3 / 10000\<close> (the default
  of the constructor) and the discount \<open>99 / 100\<close>: saved and loaded into the same
  object, the learning rate is \<open>5153961 / 2\<^sup>3\<^sup>4\<close> and the discount \<open>8304722 / 2\<^sup>2\<^sup>3\<close>.
\<close>

theorem hparams_round_trip_narrows_doubles:
  "SaveArchive (ready True) {''hparams''} Map.empty = Inr (save_hparams (ready True) Map.empty) \<and>
   map_sum id lr (LoadArchive (save_hparams (ready True) Map.empty) {''hparams''} (ready True))
     = Inr (5153961 / 17179869184) \<and>
   lr (ready True) = 3 / 10000 \<and>
   map_sum id gamma (LoadArchive (save_hparams (ready True) Map.empty) {''hparams''} (ready True))
     = Inr (8304722 / 8388608) \<and>
   gamma (ready True) = 99 / 100"
proof -
  let ?s = "load_hparams (save_hparams (ready True) Map.empty) (ready True)"
  have r: "lr (ready True) = 3 / 10000" "gamma (ready True) = 99 / 100"
    by (simp_all add: ready_True)
  have "lr ?s = float32 (3 / 10000)" "gamma ?s = float32 (99 / 100)"
    unfolding load_hparams_fields save_hparams_read r by simp_all
  then have l: "lr ?s = 5153961 / 17179869184" "gamma ?s = 8304722 / 8388608"
    by (simp_all only: float32_learning_rate float32_discount)
  show ?thesis
    unfolding SaveArchive_only_hparams LoadArchive_only_hparams map_sum.simps l r
    by (intro conjI refl)
qed

text \<open>The members a section of the archive holds, and the members no section holds.\<close>

definition hparams_of ::
  "('w, 'opt) sac \<Rightarrow>
     (int \<times> int \<times> real \<times> real \<times> real \<times> real \<times> real \<times> bool \<times> int \<times> int \<times> int) \<times>
     real option \<times> real option" where
  "hparams_of s =
    ((learning_starts s, batch_size s, lr s, tau s, gamma s, ent_coef s, target_entropy s,
      auto_ent_coef s, train_freq s, gradient_steps s, target_update_interval s),
     log_ent_coef s, ent_coef_tensor s)"

definition outside_sections ::
  "('w, 'opt) sac \<Rightarrow>
     (int \<times> int \<times> int \<times> int \<times> int \<times> int \<times> string \<times> items \<times> 'w \<times> 'opt written list) \<times>
     bool \<times> replay_buffer option \<times> tensor \<times> event list" where
  "outside_sections s =
    ((num_iters s, time_steps s, max_time_steps s, num_updates s, monitor_interval s,
      checkpoint_interval s, output_path s, log_items s, world s, outputs s),
     auto_target_entropy s, replay_buffer s, current_observation s, history s)"

lemma read_absent:
  "a k = None \<Longrightarrow> read_module a k = None \<and> read_optimizer a k = None \<and> read_tensor a k = None"
  by (simp add: read_module_def read_optimizer_def read_tensor_def)

lemma load_one:
  assumes "(case (w, r) of
              (True, Some m) \<Rightarrow> and_then (g m) (\<lambda>x. Inr (f x))
            | _ \<Rightarrow> Inr s) = Inr s'"
  shows "(\<exists>x. s' = f x) \<or> s' = s" and "\<not> w \<or> r = None \<Longrightarrow> s' = s"
  using assms by (cases w; cases r; auto simp: and_then_Inr_iff)+

lemma load_networks_result:
  assumes "load_networks a names s = Inr s'"
  shows "\<exists>x y z. s' = s\<lparr>actor := x, critic := y, critic_target := z\<rparr>"
    and "\<not> wants names ''actor'' \<or> a ''actor'' = None \<Longrightarrow> actor s' = actor s"
    and "\<not> wants names ''critic'' \<or> a ''critic'' = None \<Longrightarrow> critic s' = critic s"
    and "\<not> wants names ''critic_target'' \<or> a ''critic_target'' = None
           \<Longrightarrow> critic_target s' = critic_target s"
proof -
  from assms obtain s1 s2 where
    1: "(case (wants names ''actor'', read_module a ''actor'') of
           (True, Some m) \<Rightarrow> and_then (load_module m (actor s)) (\<lambda>x. Inr (s\<lparr>actor := x\<rparr>))
         | _ \<Rightarrow> Inr s) = Inr s1" and
    2: "(case (wants names ''critic'', read_module a ''critic'') of
           (True, Some m) \<Rightarrow> and_then (load_module m (critic s1)) (\<lambda>x. Inr (s1\<lparr>critic := x\<rparr>))
         | _ \<Rightarrow> Inr s1) = Inr s2" and
    3: "(case (wants names ''critic_target'', read_module a ''critic_target'') of
           (True, Some m) \<Rightarrow>
              and_then (load_module m (critic_target s2)) (\<lambda>x. Inr (s2\<lparr>critic_target := x\<rparr>))
         | _ \<Rightarrow> Inr s2) = Inr s'"
    unfolding load_networks_def by (elim and_then_InrE) (rule that; assumption)
  from load_one(1) [OF 1] have x: "\<exists>x. s1 = s\<lparr>actor := x\<rparr>"
    by (auto intro: exI [of _ "actor s"])
  from load_one(1) [OF 2] have y: "\<exists>y. s2 = s1\<lparr>critic := y\<rparr>"
    by (auto intro: exI [of _ "critic s1"])
  from load_one(1) [OF 3] have z: "\<exists>z. s' = s2\<lparr>critic_target := z\<rparr>"
    by (auto intro: exI [of _ "critic_target s2"])
  from x y z show shape: "\<exists>x y z. s' = s\<lparr>actor := x, critic := y, critic_target := z\<rparr>"
    by auto
  from x y z have k: "actor s' = actor s1" "critic s1 = critic s" "critic s' = critic s2"
    "critic_target s2 = critic_target s"
    by auto
  show "actor s' = actor s" if "\<not> wants names ''actor'' \<or> a ''actor'' = None"
    using load_one(2) [OF 1] that k by (auto dest: read_absent)
  show "critic s' = critic s" if "\<not> wants names ''critic'' \<or> a ''critic'' = None"
    using load_one(2) [OF 2] that k by (auto dest: read_absent)
  show "critic_target s' = critic_target s"
    if "\<not> wants names ''critic_target'' \<or> a ''critic_target'' = None"
    using load_one(2) [OF 3] that k by (auto dest: read_absent)
qed

lemma load_entropy_optimizer:
  assumes "(case (w, r) of (True, Some opt) \<Rightarrow> Inr (f (Some opt)) | _ \<Rightarrow> Inr s)
             = (Inr s' :: error + 'c)"
  shows "(\<exists>x. s' = f x) \<or> s' = s" and "\<not> w \<or> r = None \<Longrightarrow> s' = s"
  using assms by (cases w; cases r; auto)+

lemma load_optimizers_result:
  assumes "load_optimizers a names s = Inr s'"
  shows "\<exists>x y z. s' = s\<lparr>actor_optimizer := x, critic_optimizer := y, ent_coef_optimizer := z\<rparr>"
    and "\<not> wants names ''actor_optimizer'' \<or> a ''actor_optimizer'' = None
           \<Longrightarrow> actor_optimizer s' = actor_optimizer s"
    and "\<not> wants names ''critic_optimizer'' \<or> a ''critic_optimizer'' = None
           \<Longrightarrow> critic_optimizer s' = critic_optimizer s"
    and "\<not> wants names ''ent_coef_optimizer'' \<or> a ''ent_coef_optimizer'' = None
           \<or> ent_coef_optimizer s = None \<Longrightarrow> ent_coef_optimizer s' = ent_coef_optimizer s"
proof -
  from assms obtain s1 s2 where
    1: "(case (wants names ''actor_optimizer'', read_optimizer a ''actor_optimizer'') of
           (True, Some opt) \<Rightarrow>
             and_then (load_optimizer opt (actor_optimizer s)) (\<lambda>x. Inr (s\<lparr>actor_optimizer := x\<rparr>))
         | _ \<Rightarrow> Inr s) = Inr s1" and
    2: "(case (wants names ''critic_optimizer'', read_optimizer a ''critic_optimizer'') of
           (True, Some opt) \<Rightarrow>
             and_then (load_optimizer opt (critic_optimizer s1))
               (\<lambda>x. Inr (s1\<lparr>critic_optimizer := x\<rparr>))
         | _ \<Rightarrow> Inr s1) = Inr s2" and
    3: "(case (wants names ''ent_coef_optimizer'' \<and> ent_coef_optimizer s2 \<noteq> None,
              read_optimizer a ''ent_coef_optimizer'') of
           (True, Some opt) \<Rightarrow> Inr (s2\<lparr>ent_coef_optimizer := Some opt\<rparr>)
         | _ \<Rightarrow> Inr s2) = (Inr s' :: error + ('a, 'b) sac)"
    unfolding load_optimizers_def by (elim and_then_InrE) (rule that; assumption)
  from load_one(1) [OF 1] have x: "\<exists>x. s1 = s\<lparr>actor_optimizer := x\<rparr>"
    by (auto intro: exI [of _ "actor_optimizer s"])
  from load_one(1) [OF 2] have y: "\<exists>y. s2 = s1\<lparr>critic_optimizer := y\<rparr>"
    by (auto intro: exI [of _ "critic_optimizer s1"])
  from load_entropy_optimizer(1) [OF 3] have z: "\<exists>z. s' = s2\<lparr>ent_coef_optimizer := z\<rparr>"
    by (auto intro: exI [of _ "ent_coef_optimizer s2"])
  from x y z show "\<exists>x y z. s' = s\<lparr>actor_optimizer := x, critic_optimizer := y, ent_coef_optimizer := z\<rparr>"
    by auto
  from x y z have k: "actor_optimizer s' = actor_optimizer s1"
    "critic_optimizer s1 = critic_optimizer s" "critic_optimizer s' = critic_optimizer s2"
    "ent_coef_optimizer s2 = ent_coef_optimizer s"
    by auto
  show "actor_optimizer s' = actor_optimizer s"
    if "\<not> wants names ''actor_optimizer'' \<or> a ''actor_optimizer'' = None"
    using load_one(2) [OF 1] that k by (auto dest: read_absent)
  show "critic_optimizer s' = critic_optimizer s"
    if "\<not> wants names ''critic_optimizer'' \<or> a ''critic_optimizer'' = None"
    using load_one(2) [OF 2] that k by (auto dest: read_absent)
  show "ent_coef_optimizer s' = ent_coef_optimizer s"
    if "\<not> wants names ''ent_coef_optimizer'' \<or> a ''ent_coef_optimizer'' = None
          \<or> ent_coef_optimizer s = None"
    using load_entropy_optimizer(2) [OF 3] that k by (auto dest: read_absent)
qed

lemma load_hparams_absent:
  "read_tensor a ''learning_starts'' = None \<Longrightarrow> learning_starts (load_hparams a s) = learning_starts s"
  "read_tensor a ''batch_size'' = None \<Longrightarrow> batch_size (load_hparams a s) = batch_size s"
  "read_tensor a ''lr'' = None \<Longrightarrow> lr (load_hparams a s) = lr s"
  "read_tensor a ''tau'' = None \<Longrightarrow> tau (load_hparams a s) = tau s"
  "read_tensor a ''gamma'' = None \<Longrightarrow> gamma (load_hparams a s) = gamma s"
  "read_tensor a ''ent_coef'' = None \<Longrightarrow> ent_coef (load_hparams a s) = ent_coef s"
  "read_tensor a ''target_entropy'' = None \<Longrightarrow> target_entropy (load_hparams a s) = target_entropy s"
  "read_tensor a ''auto_ent_coef'' = None \<Longrightarrow> auto_ent_coef (load_hparams a s) = auto_ent_coef s"
  "read_tensor a ''train_freq'' = None \<Longrightarrow> train_freq (load_hparams a s) = train_freq s"
  "read_tensor a ''gradient_steps'' = None \<Longrightarrow> gradient_steps (load_hparams a s) = gradient_steps s"
  "read_tensor a ''target_update_interval'' = None
     \<Longrightarrow> target_update_interval (load_hparams a s) = target_update_interval s"
  "read_tensor a ''log_ent_coef'' = None \<Longrightarrow> log_ent_coef (load_hparams a s) = log_ent_coef s"
  "read_tensor a ''ent_coef_tensor'' = None \<Longrightarrow> ent_coef_tensor (load_hparams a s) = ent_coef_tensor s"
  by (simp_all add: load_hparams_fields)

lemma load_hparams_others:
  "outside_sections (load_hparams a s) = outside_sections s"
  "actor (load_hparams a s) = actor s" "critic (load_hparams a s) = critic s"
  "critic_target (load_hparams a s) = critic_target s"
  "actor_optimizer (load_hparams a s) = actor_optimizer s"
  "critic_optimizer (load_hparams a s) = critic_optimizer s"
  "ent_coef_optimizer (load_hparams a s) = ent_coef_optimizer s"
  by (simp_all add: load_hparams_def outside_sections_def)

lemma LoadArchive_parts:
  assumes "LoadArchive a names s = Inr s'"
  obtains s1 s2 where "load_networks a names s = Inr s1" "load_optimizers a names s1 = Inr s2"
    "s' = (if wants names ''hparams'' then load_hparams a s2 else s2)"
  using assms unfolding LoadArchive_def by (elim and_then_InrE) simp

lemma LoadArchive_absent_sections:
  assumes "\<forall>k \<in> set [''actor'', ''critic'', ''critic_target'', ''actor_optimizer'',
                       ''critic_optimizer'', ''ent_coef_optimizer'']. wants names k \<longrightarrow> a k = None"
  shows "LoadArchive a names s = Inr (if wants names ''hparams'' then load_hparams a s else s)"
proof -
  from assms have r: "wants names ''actor'' \<longrightarrow> read_module a ''actor'' = None"
    "wants names ''critic'' \<longrightarrow> read_module a ''critic'' = None"
    "wants names ''critic_target'' \<longrightarrow> read_module a ''critic_target'' = None"
    "wants names ''actor_optimizer'' \<longrightarrow> read_optimizer a ''actor_optimizer'' = None"
    "wants names ''critic_optimizer'' \<longrightarrow> read_optimizer a ''critic_optimizer'' = None"
    "wants names ''ent_coef_optimizer'' \<longrightarrow> read_optimizer a ''ent_coef_optimizer'' = None"
    by (simp_all add: read_absent)
  have n: "load_networks a names s = Inr s"
    using r(1,2,3) by (auto simp: load_networks_def split: bool.splits option.splits)
  have o: "load_optimizers a names s = Inr s"
    using r(4,5,6) by (auto simp: load_optimizers_def split: bool.splits option.splits)
  show ?thesis
    by (simp add: LoadArchive_def n o)
qed

lemma load_hparams_all_absent:
  assumes "\<forall>k \<in> set [''learning_starts'', ''batch_size'', ''lr'', ''tau'', ''gamma'', ''ent_coef'',
                ''target_entropy'', ''auto_ent_coef'', ''train_freq'', ''gradient_steps'',
                ''target_update_interval'', ''log_ent_coef'', ''ent_coef_tensor'']. a k = None"
  shows "load_hparams a s = s"
proof -
  from assms have "read_tensor a ''learning_starts'' = None" "read_tensor a ''batch_size'' = None"
    "read_tensor a ''lr'' = None" "read_tensor a ''tau'' = None" "read_tensor a ''gamma'' = None"
    "read_tensor a ''ent_coef'' = None" "read_tensor a ''target_entropy'' = None"
    "read_tensor a ''auto_ent_coef'' = None" "read_tensor a ''train_freq'' = None"
    "read_tensor a ''gradient_steps'' = None" "read_tensor a ''target_update_interval'' = None"
    "read_tensor a ''log_ent_coef'' = None" "read_tensor a ''ent_coef_tensor'' = None"
    by (simp_all add: read_absent)
  then show ?thesis
    by (simp add: load_hparams_def)
qed

lemma LoadArchive_frame:
  assumes "LoadArchive a names s = Inr s'"
  shows "outside_sections s' = outside_sections s \<and>
      (\<not> wants names ''actor'' \<or> a ''actor'' = None \<longrightarrow> actor s' = actor s) \<and>
      (\<not> wants names ''critic'' \<or> a ''critic'' = None \<longrightarrow> critic s' = critic s) \<and>
      (\<not> wants names ''critic_target'' \<or> a ''critic_target'' = None
         \<longrightarrow> critic_target s' = critic_target s) \<and>
      (\<not> wants names ''actor_optimizer'' \<or> a ''actor_optimizer'' = None
         \<longrightarrow> actor_optimizer s' = actor_optimizer s) \<and>
      (\<not> wants names ''critic_optimizer'' \<or> a ''critic_optimizer'' = None
         \<longrightarrow> critic_optimizer s' = critic_optimizer s) \<and>
      (\<not> wants names ''ent_coef_optimizer'' \<or> a ''ent_coef_optimizer'' = None
         \<longrightarrow> ent_coef_optimizer s' = ent_coef_optimizer s) \<and>
      (\<not> wants names ''hparams'' \<longrightarrow> hparams_of s' = hparams_of s) \<and>
      (a ''learning_starts'' = None \<longrightarrow> learning_starts s' = learning_starts s) \<and>
      (a ''batch_size'' = None \<longrightarrow> batch_size s' = batch_size s) \<and>
      (a ''lr'' = None \<longrightarrow> lr s' = lr s) \<and>
      (a ''tau'' = None \<longrightarrow> tau s' = tau s) \<and>
      (a ''gamma'' = None \<longrightarrow> gamma s' = gamma s) \<and>
      (a ''ent_coef'' = None \<longrightarrow> ent_coef s' = ent_coef s) \<and>
      (a ''target_entropy'' = None \<longrightarrow> target_entropy s' = target_entropy s) \<and>
      (a ''auto_ent_coef'' = None \<longrightarrow> auto_ent_coef s' = auto_ent_coef s) \<and>
      (a ''train_freq'' = None \<longrightarrow> train_freq s' = train_freq s) \<and>
      (a ''gradient_steps'' = None \<longrightarrow> gradient_steps s' = gradient_steps s) \<and>
      (a ''target_update_interval'' = None
         \<longrightarrow> target_update_interval s' = target_update_interval s) \<and>
      (a ''log_ent_coef'' = None \<longrightarrow> log_ent_coef s' = log_ent_coef s) \<and>
      (a ''ent_coef_tensor'' = None \<longrightarrow> ent_coef_tensor s' = ent_coef_tensor s)"
proof -
  from assms obtain s1 s2 where n: "load_networks a names s = Inr s1"
    and o: "load_optimizers a names s1 = Inr s2"
    and s': "s' = (if wants names ''hparams'' then load_hparams a s2 else s2)"
    by (rule LoadArchive_parts)
  note nr = load_networks_result [OF n] and orr = load_optimizers_result [OF o]
  from nr(1) have n1: "outside_sections s1 = outside_sections s" "hparams_of s1 = hparams_of s"
    "actor_optimizer s1 = actor_optimizer s" "critic_optimizer s1 = critic_optimizer s"
    "ent_coef_optimizer s1 = ent_coef_optimizer s"
    by (auto simp: outside_sections_def hparams_of_def)
  from orr(1) have o1: "outside_sections s2 = outside_sections s1" "hparams_of s2 = hparams_of s1"
    "actor s2 = actor s1" "critic s2 = critic s1" "critic_target s2 = critic_target s1"
    by (auto simp: outside_sections_def hparams_of_def)
  have f: "outside_sections s' = outside_sections s2" "actor s' = actor s2" "critic s' = critic s2"
    "critic_target s' = critic_target s2" "actor_optimizer s' = actor_optimizer s2"
    "critic_optimizer s' = critic_optimizer s2" "ent_coef_optimizer s' = ent_coef_optimizer s2"
    by (simp_all add: s' load_hparams_others)
  have h: "hparams_of s2 = hparams_of s" using n1 o1 by simp
  then have hs: "learning_starts s2 = learning_starts s" "batch_size s2 = batch_size s"
    "lr s2 = lr s" "tau s2 = tau s" "gamma s2 = gamma s" "ent_coef s2 = ent_coef s"
    "target_entropy s2 = target_entropy s" "auto_ent_coef s2 = auto_ent_coef s"
    "train_freq s2 = train_freq s" "gradient_steps s2 = gradient_steps s"
    "target_update_interval s2 = target_update_interval s" "log_ent_coef s2 = log_ent_coef s"
    "ent_coef_tensor s2 = ent_coef_tensor s"
    by (simp_all add: hparams_of_def)
  have sections: "outside_sections s' = outside_sections s \<and>
      (\<not> wants names ''actor'' \<or> a ''actor'' = None \<longrightarrow> actor s' = actor s) \<and>
      (\<not> wants names ''critic'' \<or> a ''critic'' = None \<longrightarrow> critic s' = critic s) \<and>
      (\<not> wants names ''critic_target'' \<or> a ''critic_target'' = None
         \<longrightarrow> critic_target s' = critic_target s) \<and>
      (\<not> wants names ''actor_optimizer'' \<or> a ''actor_optimizer'' = None
         \<longrightarrow> actor_optimizer s' = actor_optimizer s) \<and>
      (\<not> wants names ''critic_optimizer'' \<or> a ''critic_optimizer'' = None
         \<longrightarrow> critic_optimizer s' = critic_optimizer s) \<and>
      (\<not> wants names ''ent_coef_optimizer'' \<or> a ''ent_coef_optimizer'' = None
         \<longrightarrow> ent_coef_optimizer s' = ent_coef_optimizer s) \<and>
      (\<not> wants names ''hparams'' \<longrightarrow> hparams_of s' = hparams_of s)"
    using nr(2,3,4) orr(2,3,4) n1 o1 f h by (simp add: s')
  have fields: "(a ''learning_starts'' = None \<longrightarrow> learning_starts s' = learning_starts s2) \<and>
      (a ''batch_size'' = None \<longrightarrow> batch_size s' = batch_size s2) \<and>
      (a ''lr'' = None \<longrightarrow> lr s' = lr s2) \<and>
      (a ''tau'' = None \<longrightarrow> tau s' = tau s2) \<and>
      (a ''gamma'' = None \<longrightarrow> gamma s' = gamma s2) \<and>
      (a ''ent_coef'' = None \<longrightarrow> ent_coef s' = ent_coef s2) \<and>
      (a ''target_entropy'' = None \<longrightarrow> target_entropy s' = target_entropy s2) \<and>
      (a ''auto_ent_coef'' = None \<longrightarrow> auto_ent_coef s' = auto_ent_coef s2) \<and>
      (a ''train_freq'' = None \<longrightarrow> train_freq s' = train_freq s2) \<and>
      (a ''gradient_steps'' = None \<longrightarrow> gradient_steps s' = gradient_steps s2) \<and>
      (a ''target_update_interval'' = None
         \<longrightarrow> target_update_interval s' = target_update_interval s2) \<and>
      (a ''log_ent_coef'' = None \<longrightarrow> log_ent_coef s' = log_ent_coef s2) \<and>
      (a ''ent_coef_tensor'' = None \<longrightarrow> ent_coef_tensor s' = ent_coef_tensor s2)"
    by (simp add: s' load_hparams_absent read_absent)
  from sections fields show ?thesis
    by (simp only: hs) blast
qed

text \<open>
  C8. When every requested network or optimizer section is absent from the archive,
  \<open>LoadArchive\<close> returns without an error, and returns the object as it was if the
  hyperparameter keys are absent too or \<^verbatim>\<open>hparams\<close> is not requested. In every load
  that returns: the members no section holds are unchanged; a network or optimizer
  whose section is not requested or is absent is unchanged; without a request for
  \<^verbatim>\<open>hparams\<close> all its members are unchanged; and each hyperparameter whose key is absent
  is unchanged.
\<close>

theorem LoadArchive_sections:
  "((\<forall>k \<in> set [''actor'', ''critic'', ''critic_target'', ''actor_optimizer'',
                 ''critic_optimizer'', ''ent_coef_optimizer'']. wants names k \<longrightarrow> a k = None)
     \<longrightarrow> (\<exists>s'. LoadArchive a names s = Inr s' \<and>
            ((\<forall>k \<in> set [''learning_starts'', ''batch_size'', ''lr'', ''tau'', ''gamma'',
                 ''ent_coef'', ''target_entropy'', ''auto_ent_coef'', ''train_freq'',
                 ''gradient_steps'', ''target_update_interval'', ''log_ent_coef'',
                 ''ent_coef_tensor'']. a k = None)
              \<or> \<not> wants names ''hparams'' \<longrightarrow> s' = s))) \<and>
   (\<forall>s'. LoadArchive a names s = Inr s' \<longrightarrow>
      outside_sections s' = outside_sections s \<and>
      (\<not> wants names ''actor'' \<or> a ''actor'' = None \<longrightarrow> actor s' = actor s) \<and>
      (\<not> wants names ''critic'' \<or> a ''critic'' = None \<longrightarrow> critic s' = critic s) \<and>
      (\<not> wants names ''critic_target'' \<or> a ''critic_target'' = None
         \<longrightarrow> critic_target s' = critic_target s) \<and>
      (\<not> wants names ''actor_optimizer'' \<or> a ''actor_optimizer'' = None
         \<longrightarrow> actor_optimizer s' = actor_optimizer s) \<and>
      (\<not> wants names ''critic_optimizer'' \<or> a ''critic_optimizer'' = None
         \<longrightarrow> critic_optimizer s' = critic_optimizer s) \<and>
      (\<not> wants names ''ent_coef_optimizer'' \<or> a ''ent_coef_optimizer'' = None
         \<longrightarrow> ent_coef_optimizer s' = ent_coef_optimizer s) \<and>
      (\<not> wants names ''hparams'' \<longrightarrow> hparams_of s' = hparams_of s) \<and>
      (a ''learning_starts'' = None \<longrightarrow> learning_starts s' = learning_starts s) \<and>
      (a ''batch_size'' = None \<longrightarrow> batch_size s' = batch_size s) \<and>
      (a ''lr'' = None \<longrightarrow> lr s' = lr s) \<and>
      (a ''tau'' = None \<longrightarrow> tau s' = tau s) \<and>
      (a ''gamma'' = None \<longrightarrow> gamma s' = gamma s) \<and>
      (a ''ent_coef'' = None \<longrightarrow> ent_coef s' = ent_coef s) \<and>
      (a ''target_entropy'' = None \<longrightarrow> target_entropy s' = target_entropy s) \<and>
      (a ''auto_ent_coef'' = None \<longrightarrow> auto_ent_coef s' = auto_ent_coef s) \<and>
      (a ''train_freq'' = None \<longrightarrow> train_freq s' = train_freq s) \<and>
      (a ''gradient_steps'' = None \<longrightarrow> gradient_steps s' = gradient_steps s) \<and>
      (a ''target_update_interval'' = None
         \<longrightarrow> target_update_interval s' = target_update_interval s) \<and>
      (a ''log_ent_coef'' = None \<longrightarrow> log_ent_coef s' = log_ent_coef s) \<and>
      (a ''ent_coef_tensor'' = None \<longrightarrow> ent_coef_tensor s' = ent_coef_tensor s))"
proof (rule conjI)
  show "(\<forall>k \<in> set [''actor'', ''critic'', ''critic_target'', ''actor_optimizer'',
                 ''critic_optimizer'', ''ent_coef_optimizer'']. wants names k \<longrightarrow> a k = None)
     \<longrightarrow> (\<exists>s'. LoadArchive a names s = Inr s' \<and>
            ((\<forall>k \<in> set [''learning_starts'', ''batch_size'', ''lr'', ''tau'', ''gamma'',
                 ''ent_coef'', ''target_entropy'', ''auto_ent_coef'', ''train_freq'',
                 ''gradient_steps'', ''target_update_interval'', ''log_ent_coef'',
                 ''ent_coef_tensor'']. a k = None)
              \<or> \<not> wants names ''hparams'' \<longrightarrow> s' = s))"
  proof
    assume k: "\<forall>k \<in> set [''actor'', ''critic'', ''critic_target'', ''actor_optimizer'',
                 ''critic_optimizer'', ''ent_coef_optimizer'']. wants names k \<longrightarrow> a k = None"
    let ?s' = "if wants names ''hparams'' then load_hparams a s else s"
    have "?s' = s"
      if "(\<forall>k \<in> set [''learning_starts'', ''batch_size'', ''lr'', ''tau'', ''gamma'',
                 ''ent_coef'', ''target_entropy'', ''auto_ent_coef'', ''train_freq'',
                 ''gradient_steps'', ''target_update_interval'', ''log_ent_coef'',
                 ''ent_coef_tensor'']. a k = None) \<or> \<not> wants names ''hparams''"
      using that load_hparams_all_absent [of a s] by auto
    with LoadArchive_absent_sections [OF k, of s]
    show "\<exists>s'. LoadArchive a names s = Inr s' \<and>
            ((\<forall>k \<in> set [''learning_starts'', ''batch_size'', ''lr'', ''tau'', ''gamma'',
                 ''ent_coef'', ''target_entropy'', ''auto_ent_coef'', ''train_freq'',
                 ''gradient_steps'', ''target_update_interval'', ''log_ent_coef'',
                 ''ent_coef_tensor'']. a k = None)
              \<or> \<not> wants names ''hparams'' \<longrightarrow> s' = s)"
      by (intro exI [of _ ?s']) blast
  qed
qed (intro allI impI, rule LoadArchive_frame)

theorem LoadArchive_sections_witness:
  "wants {''hparams'', ''actor''} ''actor'' \<and> wants {''hparams'', ''actor''} ''hparams'' \<and>
   \<not> wants {''hparams'', ''actor''} ''critic'' \<and>
   (\<exists>s'. LoadArchive
           [''lr'' \<mapsto> TensorEntry (Double (1 / 2)),
            ''critic'' \<mapsto> ModuleEntry \<lparr>parameters = [9, 9], buffers = [9], training = True\<rparr>]
           {''hparams'', ''actor''} (ready True) = Inr s' \<and>
         lr s' = 1 / 2 \<and> tau s' = tau (ready True) \<and> actor s' = actor (ready True) \<and>
         critic s' = critic (ready True) \<and> outside_sections s' = outside_sections (ready True))"
proof -
  let ?N = "{''hparams'', ''actor''}"
  let ?a = "[''lr'' \<mapsto> TensorEntry (Double (1 / 2)),
            ''critic'' \<mapsto> ModuleEntry \<lparr>parameters = [9, 9], buffers = [9], training = True\<rparr>]
            :: unit archive"
  have w: "wants ?N ''actor''" "wants ?N ''hparams''" "\<not> wants ?N ''critic''"
    by (simp_all add: wants_def)
  have k: "\<forall>k \<in> set [''actor'', ''critic'', ''critic_target'', ''actor_optimizer'',
                 ''critic_optimizer'', ''ent_coef_optimizer'']. wants ?N k \<longrightarrow> ?a k = None"
    by (simp add: wants_def)
  note th = LoadArchive_sections [of ?N ?a "ready True"]
  from th [THEN conjunct1, THEN mp, OF k] obtain s' where l: "LoadArchive ?a ?N (ready True) = Inr s'"
    by (elim exE conjE)
  note fr = th [THEN conjunct2, THEN spec, THEN mp, OF l]
  have abs: "?a ''actor'' = None" "?a ''tau'' = None" by simp_all
  from fr abs(1) have f1: "actor s' = actor (ready True)" by (elim conjE) (simp only: simp_thms)
  from fr w(3) have f2: "critic s' = critic (ready True)" by (elim conjE) (simp only: simp_thms)
  from fr abs(2) have f3: "tau s' = tau (ready True)" by (elim conjE) (simp only: simp_thms)
  from fr have f4: "outside_sections s' = outside_sections (ready True)" by (elim conjE)
  from l LoadArchive_absent_sections [OF k, of "ready True"] w(2)
  have "s' = load_hparams ?a (ready True)" by (simp only: if_True sum.inject)
  then have "lr s' = 1 / 2"
    by (simp add: load_hparams_fields read_tensor_def)
  with w l f1 f2 f3 f4 show ?thesis
    by (intro conjI exI [of _ s']) assumption+
qed

section \<open>The log item of the entropy loss\<close>

lemma RegisterLogItems_keys:
  "log_items s = [] \<Longrightarrow>
     map fst (log_items (RegisterLogItems s)) =
       [''ent_coef'', ''actor_loss'', ''critic_loss'', ''q_value'', ''reward''] @
       (if auto_ent_coef s then [''ent_coef_loss''] else [])"
  by (simp add: RegisterLogItems_def Let_def)














end
